theory Spec2Isabelle
  imports Complex_Main
begin

section \<open>Python strings\<close>

text \<open>
  Text is modelled as \<open>string\<close>, a list of 8-bit characters read as the code points
  U+0000 to U+00FF. On these, \<open>is_space\<close> is \<open>str.isspace\<close> (the characters
  \<open>str.strip\<close> removes: the ASCII ones, U+0085 and U+00A0), \<open>is_digit\<close> is
  \<open>str.isdigit\<close> (the ASCII digits and the superscripts U+00B2, U+00B3, U+00B9) and
  \<open>lower\<close> is \<open>str.lower\<close>. \<open>upper\<close> is \<open>str.upper\<close> except at U+00B5, U+00DF
  and U+00FF, whose upper case lies outside the range and which it leaves unchanged;
  the code upper-cases only the case status it compares with ACTIVE and OPEN, and a text
  with one of these three characters equals neither before or after \<open>str.upper\<close>.
  \<open>startswith\<close> and \<open>contains\<close> are \<open>str.startswith\<close> and the substring test
  \<open>needle in hay\<close>.
\<close>

definition is_space :: "char \<Rightarrow> bool" where
  "is_space c = (c \<in> set [CHR 0x20, CHR 0x09, CHR 0x0A, CHR 0x0B, CHR 0x0C, CHR 0x0D,
                            CHR 0x1C, CHR 0x1D, CHR 0x1E, CHR 0x1F, CHR 0x85, CHR 0xA0])"

definition lstrip :: "string \<Rightarrow> string" where
  "lstrip s = dropWhile is_space s"

definition strip :: "string \<Rightarrow> string" where
  "strip s = rev (lstrip (rev (lstrip s)))"

definition upper_letters :: string where
  "upper_letters = ''ABCDEFGHIJKLMNOPQRSTUVWXYZ'' @
     [CHR 0xC0, CHR 0xC1, CHR 0xC2, CHR 0xC3, CHR 0xC4, CHR 0xC5, CHR 0xC6, CHR 0xC7,
      CHR 0xC8, CHR 0xC9, CHR 0xCA, CHR 0xCB, CHR 0xCC, CHR 0xCD, CHR 0xCE, CHR 0xCF,
      CHR 0xD0, CHR 0xD1, CHR 0xD2, CHR 0xD3, CHR 0xD4, CHR 0xD5, CHR 0xD6, CHR 0xD8,
      CHR 0xD9, CHR 0xDA, CHR 0xDB, CHR 0xDC, CHR 0xDD, CHR 0xDE]"

definition lower_letters :: string where
  "lower_letters = ''abcdefghijklmnopqrstuvwxyz'' @
     [CHR 0xE0, CHR 0xE1, CHR 0xE2, CHR 0xE3, CHR 0xE4, CHR 0xE5, CHR 0xE6, CHR 0xE7,
      CHR 0xE8, CHR 0xE9, CHR 0xEA, CHR 0xEB, CHR 0xEC, CHR 0xED, CHR 0xEE, CHR 0xEF,
      CHR 0xF0, CHR 0xF1, CHR 0xF2, CHR 0xF3, CHR 0xF4, CHR 0xF5, CHR 0xF6, CHR 0xF8,
      CHR 0xF9, CHR 0xFA, CHR 0xFB, CHR 0xFC, CHR 0xFD, CHR 0xFE]"

definition lower_char :: "char \<Rightarrow> char" where
  "lower_char c = (case map_of (zip upper_letters lower_letters) c of Some d \<Rightarrow> d | None \<Rightarrow> c)"

definition upper_char :: "char \<Rightarrow> char" where
  "upper_char c = (case map_of (zip lower_letters upper_letters) c of Some d \<Rightarrow> d | None \<Rightarrow> c)"

definition lower :: "string \<Rightarrow> string" where
  "lower s = map lower_char s"

definition upper :: "string \<Rightarrow> string" where
  "upper s = map upper_char s"

fun startswith :: "string \<Rightarrow> string \<Rightarrow> bool" where
  "startswith s [] = True"
| "startswith [] (p # ps) = False"
| "startswith (c # cs) (p # ps) = (c = p \<and> startswith cs ps)"

fun contains :: "string \<Rightarrow> string \<Rightarrow> bool" where
  "contains [] needle = (needle = [])"
| "contains (c # cs) needle = (startswith (c # cs) needle \<or> contains cs needle)"

definition is_digit :: "char \<Rightarrow> bool" where
  "is_digit c = (c \<in> set (''0123456789'' @ [CHR 0xB2, CHR 0xB3, CHR 0xB9]))"

section \<open>Data model\<close>

text \<open>
  \<open>case_data\<close> is the dict built by \<open>extract_case_details\<close> (nine keys); a
  CaseRecord is that dict after \<open>process_case_details\<close> has added the three attorney
  keys.
\<close>

record case_data =
  case_number :: string
  file_date :: string
  judicial_officer :: string
  case_status :: string
  case_type :: string
  charge_description :: string
  bond_amount :: string
  disposition :: string
  sentencing_info :: string

record case_record = case_data +
  attorney_name :: string
  attorney_first_name :: string
  attorney_last_name :: string

record attorney =
  first_name :: string
  last_name :: string

section \<open>Result exporter (result\_exporter.py)\<close>

text \<open>
  A pandas DataFrame is its column labels and its rows of cell values.
  \<open>DataFrame\<close> is \<open>pd.DataFrame(results)\<close> on a list of CaseRecords: one column per
  key, in the order the keys were inserted.
\<close>

record data_frame =
  columns :: "string list"
  rows :: "string list list"

definition field_names :: "string list" where
  "field_names = [''case_number'', ''file_date'', ''judicial_officer'', ''case_status'',
     ''case_type'', ''charge_description'', ''bond_amount'', ''disposition'',
     ''sentencing_info'', ''attorney_name'', ''attorney_first_name'', ''attorney_last_name'']"

definition field_values :: "case_record \<Rightarrow> string list" where
  "field_values r = [case_number r, file_date r, judicial_officer r, case_status r,
     case_type r, charge_description r, bond_amount r, disposition r,
     sentencing_info r, attorney_name r, attorney_first_name r, attorney_last_name r]"

definition DataFrame :: "case_record list \<Rightarrow> data_frame" where
  "DataFrame results = \<lparr>columns = field_names, rows = map field_values results\<rparr>"

definition column_titles :: "(string \<times> string) list" where
  "column_titles = [
     (''attorney_name'', ''Attorney''),
     (''attorney_first_name'', ''Attorney First Name''),
     (''attorney_last_name'', ''Attorney Last Name''),
     (''case_number'', ''Case Number''),
     (''file_date'', ''File Date''),
     (''judicial_officer'', ''Judicial Officer''),
     (''case_status'', ''Case Status''),
     (''case_type'', ''Case Type''),
     (''charge_description'', ''Charge Description''),
     (''bond_amount'', ''Bond Amount''),
     (''disposition'', ''Disposition''),
     (''sentencing_info'', ''Sentencing'')]"

definition column_order :: "string list" where
  "column_order = [''Attorney'', ''Case Number'', ''File Date'', ''Judicial Officer'',
     ''Case Status'', ''Case Type'', ''Charge Description'', ''Bond Amount'',
     ''Disposition'', ''Sentencing'']"

text \<open>\<open>df.rename(columns=titles)\<close>: a label without a title is kept.\<close>

definition rename :: "(string \<times> string) list \<Rightarrow> data_frame \<Rightarrow> data_frame" where
  "rename titles df =
     df\<lparr>columns := map (\<lambda>c. case map_of titles c of Some t \<Rightarrow> t | None \<Rightarrow> c) (columns df)\<rparr>"

text \<open>
  \<open>df[cols]\<close>: the named columns, in the order asked for. The exporter only asks
  for labels the frame has, so the KeyError of a missing label is not reached; the
  model puts the empty string there.
\<close>

definition cell :: "string list \<Rightarrow> string list \<Rightarrow> string \<Rightarrow> string" where
  "cell cols row c = (case map_of (zip cols row) c of Some v \<Rightarrow> v | None \<Rightarrow> [])"

definition select_columns :: "string list \<Rightarrow> data_frame \<Rightarrow> data_frame" where
  "select_columns cols df =
     \<lparr>columns = cols, rows = map (\<lambda>row. map (cell (columns df) row) cols) (rows df)\<rparr>"

datatype export_format = Csv | Excel | Json

text \<open>
  \<open>export_results\<close> up to the call of the writer: \<open>None\<close> when nothing is written
  (``No results to export''), otherwise the writer chosen from \<open>OUTPUT_FORMAT\<close> and
  the frame handed to it.
\<close>

definition export_results :: "string \<Rightarrow> case_record list \<Rightarrow> (export_format \<times> data_frame) option" where
  "export_results output_format results =
     (if results = [] then None
      else
        let df = rename column_titles (DataFrame results);
            order = filter (\<lambda>col. col \<in> set (columns df)) column_order;
            df = select_columns order df
        in if lower output_format = ''csv'' then Some (Csv, df)
           else if lower output_format = ''excel'' then Some (Excel, df)
           else if lower output_format = ''json'' then Some (Json, df)
           else Some (Excel, df))"

text \<open>
  \<open>export_json\<close> writes \<open>df.to_json(orient="records")\<close>: one object per row, keyed by
  the column labels. The value below is the content of that file, as a list of objects.
\<close>

definition export_json :: "data_frame \<Rightarrow> (string \<times> string) list list" where
  "export_json df = map (zip (columns df)) (rows df)"

definition exported_object :: "case_record \<Rightarrow> (string \<times> string) list" where
  "exported_object r = [
     (''Attorney'', attorney_name r),
     (''Case Number'', case_number r),
     (''File Date'', file_date r),
     (''Judicial Officer'', judicial_officer r),
     (''Case Status'', case_status r),
     (''Case Type'', case_type r),
     (''Charge Description'', charge_description r),
     (''Bond Amount'', bond_amount r),
     (''Disposition'', disposition r),
     (''Sentencing'', sentencing_info r)]"

definition jane_doe_record :: case_record where
  "jane_doe_record = \<lparr>case_number = ''F-2500123'', file_date = ''01/15/2025'',
     judicial_officer = ''SMITH, ANN'', case_status = ''DISPOSED'', case_type = ''FELONY'',
     charge_description = ''ASSAULT FAM/HOUSE MEM IMPEDE BREATH'', bond_amount = ''$5,000.00'',
     disposition = ''CONVICTED'', sentencing_info = ''Confinement: 2 Years, PRISON'',
     attorney_name = ''MARY ANN DOE'', attorney_first_name = ''MARY ANN'',
     attorney_last_name = ''DOE''\<rparr>"

section \<open>Case field extractor (case\_data\_extractor.py)\<close>

definition BOND_AMOUNT_DISQUALIFIERS :: "string list" where
  "BOND_AMOUNT_DISQUALIFIERS = [''due'', ''owed'', ''balance'', ''paid'', ''fee'', ''fees'',
     ''financial'', ''assessment'', ''assessments'', ''transaction'', ''transactions'',
     ''credit'', ''credits'', ''payment'', ''payments'', ''total'', ''fine'', ''fines'',
     ''cost'', ''costs'']"

datatype extraction_error = FieldExtractionError string

definition ensure_field_extracted :: "string \<Rightarrow> string \<Rightarrow> bool \<Rightarrow> extraction_error + string" where
  "ensure_field_extracted field_label value required =
     (let value = strip value in
      if value \<noteq> [] then Inr value
      else if required then Inl (FieldExtractionError (field_label @ '' could not be extracted''))
      else Inr [])"

definition record_field_extraction ::
  "string \<Rightarrow> string \<Rightarrow> string list \<Rightarrow> bool \<Rightarrow> string \<times> string list" where
  "record_field_extraction field_label value field_errors required =
     (case ensure_field_extracted field_label value required of
        Inr v \<Rightarrow> (v, field_errors)
      | Inl exc \<Rightarrow> ([], field_errors @ [field_label]))"

subsection \<open>The case detail page\<close>

text \<open>
  The page is what the extractor reads from it. A cell of \<open>td[role="gridcell"]\<close> is its
  text and the text of its row (\<open>ancestor::tr[1]\<close>), or \<open>Detached\<close> when reading it
  raises. The section \<open>#settingInformationDiv\<close> is absent or holds: whether the
  ``Hold Without Bond'' marker is in its visible content, the texts of its
  \<open>padding-left:30px\<close> divs, the class attributes of the expand icons of
  \<open>#BondSettingsGrid\<close> (\<open>None\<close> when there is no grid), and what a click on the
  bottom-most icon leads to: an exception, or the marker and the divs of the expanded
  section.
\<close>

datatype gridcell = Detached | GridCell string string

datatype expansion = ExpandRaises | Expanded bool "string list"

record bond_settings =
  hold_marker :: bool
  amount_divs :: "string list"
  expand_icons :: "string list option"
  expansion :: expansion

text \<open>
  The \<open>found_\<close> fields are the texts the label and selector lookups return
  (\<open>extract_value_from_lines(...) or extract_value_by_selectors(...)\<close>,
  \<open>extract_charge_description\<close>, \<open>extract_disposition\<close>); \<open>confinement\<close> and
  \<open>probation\<close> are what \<open>parse_confinement_details\<close> and \<open>parse_probation_details\<close>
  return for their sections (empty when the section has no text). \<open>network_idle\<close> is
  whether \<open>wait_for_load_state("networkidle", timeout=20000)\<close> returns; it raises
  otherwise.
\<close>

record case_page =
  body_text :: string
  network_idle :: bool
  found_case_number :: string
  found_file_date :: string
  found_judicial_officer :: string
  found_case_status :: string
  found_case_type :: string
  found_charge_description :: string
  gridcells :: "gridcell list"
  settings :: "bond_settings option"
  found_disposition :: string
  confinement :: string
  probation :: string

subsection \<open>extract\_bond\_amount\<close>

definition dollar_amount :: "string \<Rightarrow> bool" where
  "dollar_amount s = (startswith s ''$'' \<and> list_ex is_digit s)"

definition disqualified :: "string \<Rightarrow> bool" where
  "disqualified row_text = list_ex (\<lambda>disqualifier. contains (lower row_text) disqualifier) BOND_AMOUNT_DISQUALIFIERS"

text \<open>
  Step 1, the loop over the gridcells: \<open>Some\<close> is the \<open>return cell_text\<close>, \<open>None\<close> the
  end of the loop or an exception inside it, after which step 2 runs.
\<close>

fun scan_gridcells :: "gridcell list \<Rightarrow> string option" where
  "scan_gridcells [] = None"
| "scan_gridcells (Detached # cells) = None"
| "scan_gridcells (GridCell text row_text # cells) =
     (let cell_text = strip text in
      if dollar_amount cell_text \<and> \<not> disqualified row_text then Some cell_text
      else scan_gridcells cells)"

fun scan_amount_divs :: "string list \<Rightarrow> string" where
  "scan_amount_divs [] = ''No bond amount set''"
| "scan_amount_divs (text # divs) =
     (let div_text = strip text in
      if dollar_amount div_text \<and> \<not> startswith (lower div_text) ''comment'' then div_text
      else scan_amount_divs divs)"

text \<open>Steps 2 to 4; an exception on the click ends in the outer handler.\<close>

definition bond_from_settings :: "bond_settings option \<Rightarrow> string" where
  "bond_from_settings sect =
     (case sect of
        None \<Rightarrow> ''No bond amount set''
      | Some s \<Rightarrow>
          if hold_marker s then ''Hold Without Bond''
          else (case expand_icons s of
              None \<Rightarrow> ''No bond amount set''
            | Some icons \<Rightarrow>
                if icons = [] then ''No bond amount set''
                else if contains (last icons) ''k-plus'' then
                  (case expansion s of
                     ExpandRaises \<Rightarrow> ''No bond amount set''
                   | Expanded marker divs \<Rightarrow>
                       if marker then ''Hold Without Bond'' else scan_amount_divs divs)
                else if hold_marker s then ''Hold Without Bond''
                else scan_amount_divs (amount_divs s)))"

definition extract_bond_amount :: "case_page \<Rightarrow> string" where
  "extract_bond_amount page =
     (case scan_gridcells (gridcells page) of
        Some cell_text \<Rightarrow> cell_text
      | None \<Rightarrow> bond_from_settings (settings page))"

text \<open>
  What the claim calls an acceptable dollar figure: a gridcell with a dollar amount in a
  row without disqualifier, or a dollar amount among the divs of the settings section
  (those on the page, and those a click on the expand icon shows). The marker is on the
  page when the section shows it, before or after the expansion.
\<close>

fun acceptable_cell :: "gridcell \<Rightarrow> bool" where
  "acceptable_cell Detached = False"
| "acceptable_cell (GridCell text row_text) = (dollar_amount (strip text) \<and> \<not> disqualified row_text)"

fun disqualified_dollar_cell :: "gridcell \<Rightarrow> bool" where
  "disqualified_dollar_cell Detached = False"
| "disqualified_dollar_cell (GridCell text row_text) = (dollar_amount (strip text) \<and> disqualified row_text)"

fun expanded_divs :: "expansion \<Rightarrow> string list" where
  "expanded_divs ExpandRaises = []"
| "expanded_divs (Expanded marker divs) = divs"

fun expanded_marker :: "expansion \<Rightarrow> bool" where
  "expanded_marker ExpandRaises = False"
| "expanded_marker (Expanded marker divs) = marker"

definition settings_divs :: "bond_settings option \<Rightarrow> string list" where
  "settings_divs sect =
     (case sect of None \<Rightarrow> [] | Some s \<Rightarrow> amount_divs s @ expanded_divs (expansion s))"

definition no_acceptable_figure :: "case_page \<Rightarrow> bool" where
  "no_acceptable_figure page =
     (\<not> list_ex acceptable_cell (gridcells page)
      \<and> \<not> list_ex (\<lambda>text. dollar_amount (strip text)) (settings_divs (settings page)))"

definition no_marker :: "case_page \<Rightarrow> bool" where
  "no_marker page =
     (case settings page of None \<Rightarrow> True
      | Some s \<Rightarrow> \<not> hold_marker s \<and> \<not> expanded_marker (expansion s))"

subsection \<open>extract\_disposition\_and\_sentencing and extract\_case\_details\<close>

fun join :: "string \<Rightarrow> string list \<Rightarrow> string" where
  "join sep [] = []"
| "join sep [x] = x"
| "join sep (x # y # ys) = x @ sep @ join sep (y # ys)"

definition extract_disposition_and_sentencing :: "case_page \<Rightarrow> string \<times> string" where
  "extract_disposition_and_sentencing page =
     (let disposition_text = found_disposition page;
          confinement_and_probation_value =
            (if confinement page \<noteq> [] then [''Confinement: '' @ confinement page] else [])
            @ (if probation page \<noteq> [] then [''Probation: '' @ probation page] else []);
          summary_text = join '' || '' confinement_and_probation_value
      in (disposition_text, summary_text))"

definition empty_case_data :: case_data where
  "empty_case_data = \<lparr>case_number = [], file_date = [], judicial_officer = [], case_status = [],
     case_type = [], charge_description = [], bond_amount = [], disposition = [],
     sentencing_info = []\<rparr>"

text \<open>
  The result is the dict and the list \<open>field_errors\<close>. When the wait for the load state
  raises, the handler around the whole body leaves every field at its initial empty
  string.
\<close>

definition extract_case_details :: "case_page \<Rightarrow> case_data \<times> string list" where
  "extract_case_details page =
     (if \<not> network_idle page then (empty_case_data, [])
      else
        let (number, errs) = record_field_extraction ''Case Number'' (found_case_number page) [] True;
            (date, errs) = record_field_extraction ''File Date'' (found_file_date page) errs True;
            (officer, errs) = record_field_extraction ''Judicial Officer'' (found_judicial_officer page) errs True;
            (status, errs) = record_field_extraction ''Case Status'' (found_case_status page) errs True;
            (ctype, errs) = record_field_extraction ''Case Type'' (found_case_type page) errs False;
            (charge, errs) = record_field_extraction ''Charge Description'' (found_charge_description page) errs True;
            (bond, errs) = record_field_extraction ''Bond Amount'' (extract_bond_amount page) errs True;
            case_status_value = upper (strip status);
            (disposition_value, confinement_and_probation_value) =
              (if case_status_value \<in> set [''ACTIVE'', ''OPEN''] then (''NA'', ''NA'')
               else
                 let (disposition_value, confinement_and_probation_value) =
                       extract_disposition_and_sentencing page
                 in (if disposition_value = [] then ''NA'' else disposition_value,
                     if confinement_and_probation_value = [] then ''NA''
                     else confinement_and_probation_value));
            (dispo, errs) = record_field_extraction ''Disposition'' disposition_value errs False;
            (sentencing, errs) =
              record_field_extraction ''Disposition / Sentencing'' confinement_and_probation_value errs False
        in (\<lparr>case_number = number, file_date = date, judicial_officer = officer,
             case_status = status, case_type = ctype, charge_description = charge,
             bond_amount = bond, disposition = dispo, sentencing_info = sentencing\<rparr>, errs))"

text \<open>\<open>check_for_charge_keyword\<close>: any keyword, lower-cased, inside the lower-cased body text.\<close>

definition check_for_charge_keyword :: "case_page \<Rightarrow> string list \<Rightarrow> bool" where
  "check_for_charge_keyword page charge_keywords =
     list_ex (\<lambda>keyword. contains (lower (body_text page)) (lower keyword)) charge_keywords"

subsection \<open>Example pages\<close>

definition fee_only_page :: case_page where
  "fee_only_page = \<lparr>body_text = ''AGG ASSAULT W/DEADLY WEAPON'', network_idle = True,
     found_case_number = ''F-2500123'', found_file_date = ''01/15/2025'',
     found_judicial_officer = ''SMITH, ANN'', found_case_status = ''Active'',
     found_case_type = ''FELONY'', found_charge_description = ''AGG ASSAULT W/DEADLY WEAPON'',
     gridcells = [GridCell '' $250.00 '' ''Court Fee $250.00''], settings = None,
     found_disposition = ''CONVICTED'', confinement = ''2 Years, PRISON'', probation = []\<rparr>"

definition held_settings :: bond_settings where
  "held_settings = \<lparr>hold_marker = True, amount_divs = [], expand_icons = None,
     expansion = ExpandRaises\<rparr>"

definition disposed_page :: case_page where
  "disposed_page = fee_only_page\<lparr>found_case_status := ''Disposed''\<rparr>"

text \<open>
  A page whose second gridcell holds a bond figure padded with a no-break space
  (U+00A0) and a next-line character (U+0085), which \<open>str.strip\<close> removes.
\<close>

definition cash_bond_page :: case_page where
  "cash_bond_page = fee_only_page\<lparr>gridcells :=
     [GridCell '' $250.00 '' ''Court Fee $250.00'',
      GridCell (CHR 0xA0 # ''$500.00'' @ [CHR 0x85]) ''Cash Bond $500.00'']\<rparr>"

section \<open>Attorney session workflow (scraper.py)\<close>

text \<open>The constants of config.py the workflow reads.\<close>

record config =
  CHARGE_KEYWORDS :: "string list"
  MINIMUM_CASE_YEAR :: int
  ENABLE_SESSION_RECOVERY :: bool

definition default_config :: config where
  "default_config = \<lparr>CHARGE_KEYWORDS = [''ASSAULT''], MINIMUM_CASE_YEAR = 2025,
     ENABLE_SESSION_RECOVERY = True\<rparr>"

subsection \<open>The scraper object and its browser session\<close>

text \<open>
  \<open>setup_browser\<close> starts a Playwright instance and then launches the browser, the
  context and the page; it has no handler, so a failure after the start leaves the
  instance running. Instances are numbered in the order they are started.
  \<open>started\<close> counts them and \<open>running\<close> holds those not yet stopped.
\<close>

datatype setup_outcome = SetupOk | RaisesBeforeStart | RaisesAfterStart

definition setup_browser :: "setup_outcome \<Rightarrow> nat \<Rightarrow> nat set \<Rightarrow> nat option \<times> nat \<times> nat set" where
  "setup_browser outcome started running =
     (case outcome of
        SetupOk \<Rightarrow> (Some started, Suc started, insert started running)
      | RaisesBeforeStart \<Rightarrow> (None, started, running)
      | RaisesAfterStart \<Rightarrow> (None, Suc started, insert started running))"

text \<open>
  An action of the workflow on the portal, with the ProcessedCaseSet at that moment:
  \<open>Open n P\<close> is a successful \<open>click_case_link\<close> on a row whose case number reads
  \<open>n\<close>, \<open>Leave n P\<close> the call of \<open>navigate_back_to_search_results\<close> from the detail page
  of that row, \<open>Recover\<close> a call of \<open>recover_session\<close>.
\<close>

datatype action = Open string "string set" | Leave string "string set" | Recover

text \<open>
  The fields of \<open>DallasCountyScraper\<close>: \<open>results\<close>, \<open>processed_case_numbers\<close>, and
  \<open>session\<close> for \<open>playwright\<close>, \<open>browser\<close>, \<open>context\<close> and \<open>page\<close>, which are set and
  cleared together. \<open>started\<close>, \<open>running\<close> and \<open>trace\<close> are the history of the run,
  not fields of the Python object. (\<open>current_attorney_case_count\<close> is only logged.)
\<close>

record scraper =
  results :: "case_record list"
  processed_case_numbers :: "string set"
  session :: "nat option"
  started :: nat
  running :: "nat set"
  trace :: "action list"

definition cleanup :: "scraper \<Rightarrow> scraper" where
  "cleanup s =
     (case session s of
        None \<Rightarrow> s
      | Some h \<Rightarrow> s\<lparr>session := None, running := running s - {h}\<rparr>)"

subsection \<open>The first row's file date\<close>

definition file_date_selectors :: "string list" where
  "file_date_selectors = [''td.card-data.party-case-filedate[data-label=File Date]'',
     ''td[data-label=File Date]'', ''td.party-case-filedate'',
     ''td.card-data[data-label=File Date]'']"

text \<open>
  For each selector the results page gives the text of the first match, \<open>None\<close> when
  there is no match or the lookup raises. The loop keeps the first text that is not
  blank. (Selectors are written without their inner quotation marks.)
\<close>

fun first_file_date :: "string option list \<Rightarrow> string option" where
  "first_file_date [] = None"
| "first_file_date (None # cells) = first_file_date cells"
| "first_file_date (Some date_text # cells) =
     (if date_text \<noteq> [] \<and> strip date_text \<noteq> [] then Some date_text else first_file_date cells)"

text \<open>
  \<open>datetime.strptime\<close> is a parameter: \<open>strptime text format\<close> is the year of the parsed
  date, \<open>None\<close> for a ValueError.
\<close>

fun try_date_formats :: "(string \<Rightarrow> string \<Rightarrow> int option) \<Rightarrow> int \<Rightarrow> string \<Rightarrow> string list \<Rightarrow> bool" where
  "try_date_formats strptime minimum date_text [] = True"
| "try_date_formats strptime minimum date_text (date_format # formats) =
     (case strptime date_text date_format of
        Some year \<Rightarrow> minimum \<le> year
      | None \<Rightarrow> try_date_formats strptime minimum date_text formats)"

definition check_latest_file_date ::
  "config \<Rightarrow> (string \<Rightarrow> string \<Rightarrow> int option) \<Rightarrow> (string \<Rightarrow> string option) \<Rightarrow> bool" where
  "check_latest_file_date cfg strptime cells =
     (case first_file_date (map cells file_date_selectors) of
        None \<Rightarrow> True
      | Some date_text \<Rightarrow>
          let date_text = strip date_text in
          (case strptime date_text ''%m/%d/%Y'' of
             Some year \<Rightarrow> MINIMUM_CASE_YEAR cfg \<le> year
           | None \<Rightarrow>
               try_date_formats strptime (MINIMUM_CASE_YEAR cfg) date_text
                 [''%Y-%m-%d'', ''%m-%d-%Y'', ''%d/%m/%Y'']))"

text \<open>
  The year the code reads from a date text: that of the first candidate format, in the
  order the code tries them, that parses it.
\<close>

fun first_parse :: "(string \<Rightarrow> string \<Rightarrow> int option) \<Rightarrow> string \<Rightarrow> string list \<Rightarrow> int option" where
  "first_parse strptime date_text [] = None"
| "first_parse strptime date_text (date_format # formats) =
     (case strptime date_text date_format of
        Some year \<Rightarrow> Some year
      | None \<Rightarrow> first_parse strptime date_text formats)"

definition candidate_formats :: "string list" where
  "candidate_formats = [''%m/%d/%Y'', ''%Y-%m-%d'', ''%m-%d-%Y'', ''%d/%m/%Y'']"

definition first_row_year ::
  "(string \<Rightarrow> string \<Rightarrow> int option) \<Rightarrow> (string \<Rightarrow> string option) \<Rightarrow> int option" where
  "first_row_year strptime cells =
     (case first_file_date (map cells file_date_selectors) of
        None \<Rightarrow> None
      | Some date_text \<Rightarrow> first_parse strptime (strip date_text) candidate_formats)"

subsection \<open>Rows of the results list\<close>

text \<open>
  A link lookup in a row: no visible match, an exception, or the text of the link.
  A row is its two link lookups, whether \<open>click_case_link\<close> opens it, and the detail
  page that opens.
\<close>

datatype link_probe = Missing | Raises | Shown string

record result_row =
  primary_link :: link_probe
  fallback_link :: link_probe
  click_ok :: bool
  detail :: case_page

definition get_case_number_from_row :: "result_row \<Rightarrow> string" where
  "get_case_number_from_row row =
     (case primary_link row of
        Shown text \<Rightarrow> strip text
      | Raises \<Rightarrow> []
      | Missing \<Rightarrow>
          (case fallback_link row of
             Shown text \<Rightarrow> strip text
           | Raises \<Rightarrow> []
           | Missing \<Rightarrow> []))"

definition process_case_details :: "config \<Rightarrow> attorney \<Rightarrow> case_page \<Rightarrow> scraper \<Rightarrow> scraper" where
  "process_case_details cfg att page s =
     (if \<not> check_for_charge_keyword page (CHARGE_KEYWORDS cfg) then s
      else
        let d = fst (extract_case_details page);
            case_data = \<lparr>case_number = case_number d, file_date = file_date d,
              judicial_officer = judicial_officer d, case_status = case_status d,
              case_type = case_type d, charge_description = charge_description d,
              bond_amount = bond_amount d, disposition = disposition d,
              sentencing_info = sentencing_info d,
              attorney_name = first_name att @ '' '' @ last_name att,
              attorney_first_name = first_name att,
              attorney_last_name = last_name att\<rparr>
        in s\<lparr>results := results s @ [case_data]\<rparr>)"

subsection \<open>Back to the results list\<close>

datatype wait_outcome = Found | TimedOut | WaitError

text \<open>
  \<open>wait_for_selector timeout\<close> is what Playwright's wait for the heading
  ``Party Search Results'' does when given that timeout in milliseconds: it finds the
  heading, raises its TimeoutError, or raises something else.
\<close>

definition wait_for_search_results_page :: "(int \<Rightarrow> wait_outcome) \<Rightarrow> int \<Rightarrow> bool" where
  "wait_for_search_results_page wait_for_selector max_wait_seconds =
     (let timeout_ms = max_wait_seconds * 10 in
      case wait_for_selector timeout_ms of
        Found \<Rightarrow> True
      | TimedOut \<Rightarrow> False
      | WaitError \<Rightarrow> False)"

definition default_max_wait_seconds :: int where
  "default_max_wait_seconds = 120"

definition search_tab_selectors :: "string list" where
  "search_tab_selectors = [''a#tcControllerLink_1'', ''li#tcController_1 a'',
     ''a:has-text(Search Results)'', ''p.step-label:has-text(Search Results)'']"

text \<open>
  What one tab selector meets: the number of matches (\<open>None\<close> when counting raises),
  whether the first match is visible (\<open>None\<close> when the check raises), whether the click
  returns, and the wait for the heading after that click.
\<close>

record tab_probe =
  match_count :: "nat option"
  tab_visible :: "bool option"
  tab_click :: bool
  heading :: "int \<Rightarrow> wait_outcome"

fun try_tabs :: "tab_probe list \<Rightarrow> bool" where
  "try_tabs [] = False"
| "try_tabs (p # ps) =
     (let count = (case match_count p of None \<Rightarrow> 0 | Some n \<Rightarrow> n) in
      if count = 0 then try_tabs ps
      else (case tab_visible p of
          None \<Rightarrow> try_tabs ps
        | Some False \<Rightarrow> try_tabs ps
        | Some True \<Rightarrow>
            if \<not> tab_click p then try_tabs ps
            else if wait_for_search_results_page (heading p) default_max_wait_seconds then True
            else try_tabs ps))"

definition navigate_back_to_search_results :: "(string \<Rightarrow> tab_probe) \<Rightarrow> bool" where
  "navigate_back_to_search_results tabs = try_tabs (map tabs search_tab_selectors)"

subsection \<open>Session recovery\<close>

text \<open>
  One attempt of \<open>recover_session\<close>: how \<open>setup_browser\<close> ends and what each step
  returned; \<open>captcha_resolved\<close> is the value \<open>resolve_captcha\<close> returned.
\<close>

record recovery_attempt =
  browser_setup :: setup_outcome
  navigated :: bool
  attorney_selected :: bool
  fields_filled :: bool
  captcha_resolved :: bool
  submitted :: bool

fun recovery_attempts :: "recovery_attempt list \<Rightarrow> scraper \<Rightarrow> bool \<times> scraper" where
  "recovery_attempts [] s = (False, s)"
| "recovery_attempts (a # attempts) s =
     (case setup_browser (browser_setup a) (started s) (running s) of
        (None, started', running') \<Rightarrow>
          recovery_attempts attempts (s\<lparr>started := started', running := running'\<rparr>)
      | (Some h, started', running') \<Rightarrow>
          (let s' = s\<lparr>session := Some h, started := started', running := running'\<rparr> in
           if \<not> navigated a then recovery_attempts attempts s'
           else if \<not> attorney_selected a then recovery_attempts attempts s'
           else if \<not> fields_filled a then recovery_attempts attempts s'
           else if \<not> captcha_resolved a then recovery_attempts attempts s'
           else if \<not> submitted a then recovery_attempts attempts s'
           else (True, s')))"

definition max_retries :: nat where
  "max_retries = 6"

definition recover_session :: "(nat \<Rightarrow> recovery_attempt) \<Rightarrow> scraper \<Rightarrow> bool \<times> scraper" where
  "recover_session attempts s =
     recovery_attempts (map attempts [0..<max_retries]) (cleanup (s\<lparr>trace := trace s @ [Recover]\<rparr>))"

subsection \<open>process\_felony\_cases\<close>

text \<open>
  What one turn of the loop meets: \<open>fault\<close>, an exception escaping the body before the
  row is looked at (the methods the body calls catch their own); the tab selectors on
  the way back; the recovery attempts; and \<open>rows_after\<close>, what \<open>get_case_type_rows\<close>
  returns when the turn calls it.
\<close>

record step_env =
  fault :: bool
  tabs :: "string \<Rightarrow> tab_probe"
  recovery :: "nat \<Rightarrow> recovery_attempt"
  rows_after :: "result_row list"

text \<open>
  The row is open: the details are processed and the case number, when there is one,
  is marked. The result is the state in which \<open>navigate_back_to_search_results\<close> is
  called.
\<close>

definition visit_case :: "config \<Rightarrow> attorney \<Rightarrow> result_row \<Rightarrow> scraper \<Rightarrow> scraper" where
  "visit_case cfg att row s =
     (let case_number = get_case_number_from_row row;
          s = s\<lparr>trace := trace s @ [Open case_number (processed_case_numbers s)]\<rparr>;
          s = process_case_details cfg att (detail row) s;
          s = (if case_number \<noteq> []
               then s\<lparr>processed_case_numbers := insert case_number (processed_case_numbers s)\<rparr>
               else s)
      in s\<lparr>trace := trace s @ [Leave case_number (processed_case_numbers s)]\<rparr>)"

datatype loop_state = Continue "result_row list" nat scraper | Return scraper

text \<open>One turn of the \<open>while i < len(felony_rows)\<close> loop, for \<open>i\<close> inside the list.\<close>

definition process_row ::
  "config \<Rightarrow> attorney \<Rightarrow> step_env \<Rightarrow> result_row list \<Rightarrow> nat \<Rightarrow> scraper \<Rightarrow> loop_state" where
  "process_row cfg att e felony_rows i s =
     (if fault e then
        (if ENABLE_SESSION_RECOVERY cfg then
           (case recover_session (recovery e) s of
              (True, s') \<Rightarrow> Continue (rows_after e) 0 s'
            | (False, s') \<Rightarrow> Return s')
         else Continue felony_rows (i + 1) s)
      else
        let row = felony_rows ! i;
            case_number = get_case_number_from_row row
        in if case_number \<noteq> [] \<and> case_number \<in> processed_case_numbers s
           then Continue felony_rows (i + 1) s
           else if click_ok row then
             (let s = visit_case cfg att row s;
                  nav_success = navigate_back_to_search_results (tabs e)
              in if \<not> nav_success then
                   (if ENABLE_SESSION_RECOVERY cfg then
                      (case recover_session (recovery e) s of
                         (True, s') \<Rightarrow> Continue (rows_after e) 0 s'
                       | (False, s') \<Rightarrow> Return s')
                    else Return s)
                 else Continue (rows_after e) (i + 1) s)
           else Continue felony_rows (i + 1) s)"

text \<open>
  The loop. The script holds one \<open>step_env\<close> per turn; the loop has no bound of its own,
  and \<open>None\<close> is a run that is still going when the script ends.
\<close>

fun process_rows ::
  "config \<Rightarrow> attorney \<Rightarrow> step_env list \<Rightarrow> result_row list \<Rightarrow> nat \<Rightarrow> scraper \<Rightarrow> scraper option" where
  "process_rows cfg att [] felony_rows i s = (if i < length felony_rows then None else Some s)"
| "process_rows cfg att (e # script) felony_rows i s =
     (if i < length felony_rows then
        (case process_row cfg att e felony_rows i s of
           Continue felony_rows' i' s' \<Rightarrow> process_rows cfg att script felony_rows' i' s'
         | Return s' \<Rightarrow> Some s')
      else Some s)"

definition process_felony_cases ::
  "config \<Rightarrow> attorney \<Rightarrow> step_env list \<Rightarrow> result_row list \<Rightarrow> scraper \<Rightarrow> scraper option" where
  "process_felony_cases cfg att script felony_rows s =
     (if felony_rows = [] then Some s else process_rows cfg att script felony_rows 0 s)"

subsection \<open>run\<close>

text \<open>
  What \<open>run\<close> meets before the rows: the value each step returned (a failed selection
  of the attorney-name filter is only logged), the file date cells of the results page,
  the rows \<open>get_case_type_rows\<close> returns, and the script of the row loop.
\<close>

record run_env =
  landing_ok :: bool
  dropdown_ok :: bool
  fill_ok :: bool
  captcha_ok :: bool
  submit_ok :: bool
  strptime :: "string \<Rightarrow> string \<Rightarrow> int option"
  date_cells :: "string \<Rightarrow> string option"
  first_rows :: "result_row list"
  loop_script :: "step_env list"

definition run :: "config \<Rightarrow> attorney \<Rightarrow> run_env \<Rightarrow> scraper \<Rightarrow> (bool \<times> scraper) option" where
  "run cfg att env s =
     (if \<not> landing_ok env then Some (False, s)
      else if \<not> fill_ok env then Some (False, s)
      else if \<not> captcha_ok env then Some (False, s)
      else if \<not> submit_ok env then Some (False, s)
      else if \<not> check_latest_file_date cfg (strptime env) (date_cells env) then Some (False, s)
      else map_option (Pair True) (process_felony_cases cfg att (loop_script env) (first_rows env) s))"

text \<open>The object \<open>DallasCountyScraper(attorney)\<close> right after a successful \<open>__init__\<close>.\<close>

definition new_scraper :: "nat \<Rightarrow> nat \<Rightarrow> nat set \<Rightarrow> scraper" where
  "new_scraper h started' running' =
     \<lparr>results = [], processed_case_numbers = {}, session = Some h, started = started',
      running = running', trace = []\<rparr>"

subsection \<open>Predicates on runs\<close>

text \<open>
  A row is keyed when its case number can be read from the row and is the case number
  the extractor reads from its detail page.
\<close>

definition keyed :: "result_row \<Rightarrow> bool" where
  "keyed row = (get_case_number_from_row row \<noteq> []
     \<and> case_number (fst (extract_case_details (detail row))) = get_case_number_from_row row)"

definition keyed_script :: "step_env list \<Rightarrow> bool" where
  "keyed_script script = list_all (\<lambda>e. list_all keyed (rows_after e)) script"

definition no_duplicates :: "scraper \<Rightarrow> bool" where
  "no_duplicates s = (distinct (map case_number (results s))
     \<and> set (map case_number (results s)) \<subseteq> processed_case_numbers s)"

text \<open>
  An action respects the ProcessedCaseSet when a row with a known case number is
  opened only if that number is not in the set, and is left only once the number is in
  the set.
\<close>

fun honours :: "action \<Rightarrow> bool" where
  "honours (Open n P) = (n \<noteq> [] \<longrightarrow> n \<notin> P)"
| "honours (Leave n P) = (n \<noteq> [] \<longrightarrow> n \<in> P)"
| "honours Recover = True"

fun scraper_of :: "loop_state \<Rightarrow> scraper" where
  "scraper_of (Continue felony_rows i s) = s"
| "scraper_of (Return s) = s"

text \<open>
  A tab selector confirms the way back when it matches, its first match is visible, the
  click on it returns, and the wait that follows finds the heading within the default
  timeout of 1200 milliseconds.
\<close>

definition click_confirmed :: "tab_probe \<Rightarrow> bool" where
  "click_confirmed p = (match_count p \<noteq> None \<and> match_count p \<noteq> Some 0
     \<and> tab_visible p = Some True \<and> tab_click p \<and> heading p 1200 = Found)"

subsection \<open>Example runs\<close>

definition jane_doe :: attorney where
  "jane_doe = \<lparr>first_name = ''JANE'', last_name = ''DOE''\<rparr>"

definition known_row :: result_row where
  "known_row = \<lparr>primary_link = Shown ''F-2500123'', fallback_link = Missing, click_ok = True,
     detail = fee_only_page\<rparr>"

definition unknown_row :: result_row where
  "unknown_row = known_row\<lparr>primary_link := Missing\<rparr>"

definition other_row :: result_row where
  "other_row = \<lparr>primary_link = Shown ''F-2500456'', fallback_link = Missing, click_ok = True,
     detail = fee_only_page\<lparr>found_case_number := ''F-2500456''\<rparr>\<rparr>"

text \<open>A tab whose heading shows \<open>delay\<close> milliseconds after the click, and one whose heading never shows.\<close>

definition tab_after :: "int \<Rightarrow> tab_probe" where
  "tab_after delay = \<lparr>match_count = Some 1, tab_visible = Some True, tab_click = True,
     heading = (\<lambda>timeout. if delay \<le> timeout then Found else TimedOut)\<rparr>"

definition tab_never :: tab_probe where
  "tab_never = \<lparr>match_count = Some 1, tab_visible = Some True, tab_click = True,
     heading = (\<lambda>timeout. TimedOut)\<rparr>"

definition attempt_ok :: recovery_attempt where
  "attempt_ok = \<lparr>browser_setup = SetupOk, navigated = True, attorney_selected = True,
     fields_filled = True, captcha_resolved = True, submitted = True\<rparr>"

text \<open>A turn on which the way back works, and one on which it fails and recovery succeeds.\<close>

definition smooth :: "result_row list \<Rightarrow> step_env" where
  "smooth felony_rows = \<lparr>fault = False, tabs = (\<lambda>selector. tab_after 300),
     recovery = (\<lambda>attempt. attempt_ok), rows_after = felony_rows\<rparr>"

definition stuck :: "result_row list \<Rightarrow> step_env" where
  "stuck felony_rows = \<lparr>fault = False, tabs = (\<lambda>selector. tab_never),
     recovery = (\<lambda>attempt. attempt_ok), rows_after = felony_rows\<rparr>"

text \<open>
  On this turn the heading shows 2 seconds after the click on the first tab selector,
  so 0.8 seconds after the click on the second one.
\<close>

definition late :: "result_row list \<Rightarrow> step_env" where
  "late felony_rows = \<lparr>fault = False,
     tabs = (\<lambda>selector. if selector = ''a#tcControllerLink_1'' then tab_after 2000 else tab_after 800),
     recovery = (\<lambda>attempt. attempt_ok), rows_after = felony_rows\<rparr>"

definition fresh :: scraper where
  "fresh = new_scraper 0 1 {0}"

text \<open>
  \<open>strptime\<close> on the dates of the examples: the year of a text of the form
  \<open>MM/DD/YYYY\<close> under the format \<open>%m/%d/%Y\<close>, as far as the examples need it.
\<close>

definition example_strptime :: "string \<Rightarrow> string \<Rightarrow> int option" where
  "example_strptime date_text date_format =
     (if date_format = ''%m/%d/%Y'' \<and> date_text = ''03/14/2025'' then Some 2025
      else if date_format = ''%m/%d/%Y'' \<and> date_text = ''11/02/2019'' then Some 2019
      else None)"

definition example_env :: "string \<Rightarrow> run_env" where
  "example_env first_date = \<lparr>landing_ok = True, dropdown_ok = True, fill_ok = True,
     captcha_ok = True, submit_ok = True, strptime = example_strptime,
     date_cells = (\<lambda>selector. if selector = ''td[data-label=File Date]'' then Some first_date else None),
     first_rows = [known_row], loop_script = [smooth [known_row]]\<rparr>"

text \<open>
  Two rows, and four turns of the loop: the way back fails after the second row and
  recovery succeeds.
\<close>

definition failure_script :: "result_row list \<Rightarrow> step_env list" where
  "failure_script felony_rows =
     [smooth felony_rows, stuck felony_rows, smooth felony_rows, smooth felony_rows]"

section \<open>Captcha resolver (captcha\_handler.py)\<close>

subsection \<open>The thread-local flag\<close>

text \<open>
  \<open>thread_local.use_manual_captcha_only\<close> of one thread: \<open>None\<close> while the attribute
  does not exist, then its value.
\<close>

definition get_manual_captcha_flag :: "bool option \<Rightarrow> bool \<times> bool option" where
  "get_manual_captcha_flag thread_local =
     (case thread_local of
        None \<Rightarrow> (False, Some False)
      | Some use_manual_captcha_only \<Rightarrow> (use_manual_captcha_only, thread_local))"

definition set_manual_captcha_flag :: "bool \<Rightarrow> bool option \<Rightarrow> bool option" where
  "set_manual_captcha_flag v thread_local = Some v"

subsection \<open>solve\_captcha\_manually\<close>

text \<open>
  The page during a manual wait: whether the \<open>k\<close>-th look finds the checkbox checked,
  and how many milliseconds that look takes. \<open>poll\<close> is the \<open>while True\<close> loop at its
  \<open>k\<close>-th look, \<open>elapsed\<close> milliseconds after \<open>start_time\<close>; the timeout is in seconds,
  \<open>None\<close> for no timeout. A wait that never returns is the value \<open>None\<close>.
\<close>

record manual_env =
  checked :: "nat \<Rightarrow> bool"
  look_ms :: "nat \<Rightarrow> nat"

partial_function (option) poll :: "manual_env \<Rightarrow> nat option \<Rightarrow> nat \<Rightarrow> nat \<Rightarrow> bool option" where
  "poll env timeout k elapsed =
     (if checked env k then Some True
      else if (case timeout of None \<Rightarrow> False
               | Some seconds \<Rightarrow> seconds * 1000 < elapsed + look_ms env k) then Some False
      else poll env timeout (Suc k) (elapsed + look_ms env k + 2000))"

definition solve_captcha_manually :: "manual_env \<Rightarrow> nat option \<Rightarrow> bool option" where
  "solve_captcha_manually env timeout = poll env timeout 0 0"

subsection \<open>solve\_recaptcha\_v2\_with\_2captcha\<close>

text \<open>
  What the 2captcha client meets: the site key \<open>get_recaptcha_site_key\<close> finds, the
  reply to the \<open>k\<close>-th submission and to the \<open>k\<close>-th poll (a network error, an error
  reply, or the job id, the ``not ready'' reply and the token), and whether
  \<open>inject_recaptcha_token\<close> verifies a token in the page.
\<close>

datatype submit_reply = SubmitNetworkError | SubmitError string | SubmitAccepted string

datatype poll_reply = PollNetworkError | PollError string | PollNotReady | PollSolved string

record twocaptcha_env =
  site_key :: "string option"
  submit_replies :: "nat \<Rightarrow> submit_reply"
  poll_replies :: "nat \<Rightarrow> poll_reply"
  inject_recaptcha_token :: "string \<Rightarrow> bool"

definition max_submit_retries :: nat where
  "max_submit_retries = 3"

definition max_attempts :: nat where
  "max_attempts = 60"

text \<open>The loop \<open>for retry in range(max_submit_retries)\<close>: \<open>None\<close> is the \<open>return False\<close> after the last network error.\<close>

fun submit_captcha :: "(nat \<Rightarrow> submit_reply) \<Rightarrow> nat list \<Rightarrow> submit_reply option" where
  "submit_captcha replies [] = None"
| "submit_captcha replies (retry # retries) =
     (case replies retry of
        SubmitNetworkError \<Rightarrow>
          if retry = max_submit_retries - 1 then None else submit_captcha replies retries
      | SubmitError error_code \<Rightarrow> Some (SubmitError error_code)
      | SubmitAccepted captcha_id \<Rightarrow> Some (SubmitAccepted captcha_id))"

text \<open>The loop \<open>while attempt < max_attempts\<close>; each turn sends one poll.\<close>

function poll_for_solution :: "twocaptcha_env \<Rightarrow> nat \<Rightarrow> bool" where
  "poll_for_solution env attempt =
     (if attempt < max_attempts then
        (case poll_replies env attempt of
           PollNetworkError \<Rightarrow> poll_for_solution env (attempt + 1)
         | PollSolved token \<Rightarrow>
             if token = [] \<or> length token < 100 then False
             else inject_recaptcha_token env token
         | PollNotReady \<Rightarrow> poll_for_solution env (attempt + 1)
         | PollError error_code \<Rightarrow> False)
      else False)"
  by pat_completeness auto
termination
  by (relation "measure (\<lambda>(env, attempt). max_attempts - attempt)") auto

definition solve_recaptcha_v2_with_2captcha :: "twocaptcha_env \<Rightarrow> string \<Rightarrow> bool" where
  "solve_recaptcha_v2_with_2captcha env api_key =
     (if api_key = [] \<or> length api_key < 32 then False
      else (case site_key env of
          None \<Rightarrow> False
        | Some key \<Rightarrow>
            if key = [] \<or> length key < 20 then False
            else (case submit_captcha (submit_replies env) [0..<max_submit_retries] of
                None \<Rightarrow> False
              | Some SubmitNetworkError \<Rightarrow> False
              | Some (SubmitError error_code) \<Rightarrow> False
              | Some (SubmitAccepted captcha_id) \<Rightarrow> poll_for_solution env 0)))"

subsection \<open>solve\_captcha\_with\_service\<close>

text \<open>
  What the automated path meets: the balance \<open>check_2captcha_balance\<close> returns (\<open>None\<close>
  on any error), the 2captcha client, whether an exception escapes the 2captcha branch,
  and the page during the manual wait of this call.
\<close>

record service_env =
  balance :: "rat option"
  twocaptcha :: twocaptcha_env
  service_raises :: bool
  service_manual :: manual_env

definition with_flag :: "bool option \<Rightarrow> bool option \<Rightarrow> (bool \<times> bool option) option" where
  "with_flag thread_local returned = map_option (\<lambda>r. (r, thread_local)) returned"

definition solve_captcha_with_service ::
  "service_env \<Rightarrow> string \<Rightarrow> string \<Rightarrow> bool option \<Rightarrow> (bool \<times> bool option) option" where
  "solve_captcha_with_service env api_key service thread_local =
     (let (flag, thread_local) = get_manual_captcha_flag thread_local in
      if flag then with_flag thread_local (solve_captcha_manually (service_manual env) (Some 300))
      else if api_key = [] then
        with_flag thread_local (solve_captcha_manually (service_manual env) (Some 300))
      else if lower service = ''2captcha'' then
        (if service_raises env then
           with_flag (set_manual_captcha_flag True thread_local)
             (solve_captcha_manually (service_manual env) (Some 300))
         else if (case balance env of None \<Rightarrow> False | Some b \<Rightarrow> b < 3 / 1000) then
           with_flag (set_manual_captcha_flag True thread_local)
             (solve_captcha_manually (service_manual env) (Some 300))
         else if \<not> solve_recaptcha_v2_with_2captcha (twocaptcha env) api_key then
           with_flag (set_manual_captcha_flag True thread_local)
             (solve_captcha_manually (service_manual env) (Some 300))
         else Some (True, thread_local))
      else with_flag thread_local (solve_captcha_manually (service_manual env) (Some 300)))"

subsection \<open>resolve\_captcha\<close>

text \<open>
  What \<open>resolve_captcha\<close> meets: whether \<open>detect_captcha\<close> finds a captcha, the
  automated path, the count of \<open>iframe[title='reCAPTCHA']\<close>, whether the checkbox border
  is visible (\<open>None\<close> when the check raises), whether the click on it returns, and the
  page during the manual wait of the fallback. (\<open>action_delay\<close> only adds sleeps.)
\<close>

record captcha_env =
  captcha_detected :: bool
  service_path :: service_env
  iframe_count :: nat
  checkbox_visible :: "bool option"
  checkbox_click :: bool
  fallback_manual :: manual_env

definition manual_fallback :: "captcha_env \<Rightarrow> bool option \<Rightarrow> (bool \<times> bool option) option" where
  "manual_fallback env thread_local =
     (if iframe_count env = 0 then Some (False, thread_local)
      else if checkbox_visible env \<noteq> Some True then Some (False, thread_local)
      else if \<not> checkbox_click env then Some (False, thread_local)
      else with_flag thread_local (solve_captcha_manually (fallback_manual env) None))"

definition resolve_captcha ::
  "captcha_env \<Rightarrow> string option \<Rightarrow> bool \<Rightarrow> bool option \<Rightarrow> (bool \<times> bool option) option" where
  "resolve_captcha env api_key use_service thread_local =
     (if \<not> captcha_detected env then Some (True, thread_local)
      else if use_service \<and> api_key \<noteq> None \<and> api_key \<noteq> Some [] then
        (case solve_captcha_with_service (service_path env) (the api_key) ''2captcha'' thread_local of
           None \<Rightarrow> None
         | Some (True, thread_local) \<Rightarrow> Some (True, thread_local)
         | Some (False, thread_local) \<Rightarrow> manual_fallback env thread_local)
      else manual_fallback env thread_local)"

subsection \<open>Worker threads\<close>

text \<open>
  The captcha calls of one worker task, in order, on the thread that runs the task: the
  flag of that thread is handed from one call to the next.
\<close>

fun run_captchas ::
  "string option \<Rightarrow> bool \<Rightarrow> captcha_env list \<Rightarrow> bool option \<Rightarrow> bool option option" where
  "run_captchas api_key use_service [] thread_local = Some thread_local"
| "run_captchas api_key use_service (env # envs) thread_local =
     (case resolve_captcha env api_key use_service thread_local of
        None \<Rightarrow> None
      | Some (solved, thread_local) \<Rightarrow> run_captchas api_key use_service envs thread_local)"

text \<open>
  The tasks of a pool, each with the thread of the pool that runs it; \<open>locals\<close> is the
  thread-local storage of each thread. A thread takes up its next task when it has
  finished the one before, with its storage as that task left it.
\<close>

fun run_tasks ::
  "string option \<Rightarrow> bool \<Rightarrow> (nat \<times> captcha_env list) list \<Rightarrow> (nat \<Rightarrow> bool option)
     \<Rightarrow> (nat \<Rightarrow> bool option) option" where
  "run_tasks api_key use_service [] locals = Some locals"
| "run_tasks api_key use_service ((thread, task) # tasks) locals =
     (case run_captchas api_key use_service task (locals thread) of
        None \<Rightarrow> None
      | Some thread_local \<Rightarrow> run_tasks api_key use_service tasks (locals(thread := thread_local)))"

text \<open>
  The flag a task finds when it starts: that of its thread after the tasks before it.
\<close>

definition flag_at_start ::
  "string option \<Rightarrow> bool \<Rightarrow> (nat \<times> captcha_env list) list \<Rightarrow> nat \<Rightarrow> bool option" where
  "flag_at_start api_key use_service tasks thread =
     map_option (\<lambda>locals. fst (get_manual_captcha_flag (locals thread)))
       (run_tasks api_key use_service tasks (\<lambda>thread. None))"

subsection \<open>Example captchas\<close>

definition nobody_solves :: manual_env where
  "nobody_solves = \<lparr>checked = (\<lambda>k. False), look_ms = (\<lambda>k. 2000)\<rparr>"

definition solved_at_once :: manual_env where
  "solved_at_once = \<lparr>checked = (\<lambda>k. True), look_ms = (\<lambda>k. 500)\<rparr>"

definition example_api_key :: string where
  "example_api_key = ''0123456789abcdef0123456789abcdef''"

text \<open>A 2captcha job that is solved at the fourth poll, and one that is refused.\<close>

definition solving_service :: twocaptcha_env where
  "solving_service = \<lparr>site_key = Some ''6LdExampleSiteKey0123456789abcdefghijklm'',
     submit_replies = (\<lambda>k. SubmitAccepted ''71823469''),
     poll_replies = (\<lambda>k. if k < 3 then PollNotReady else PollSolved (replicate 120 CHR ''t'')),
     inject_recaptcha_token = (\<lambda>token. True)\<rparr>"

definition refusing_service :: twocaptcha_env where
  "refusing_service = solving_service\<lparr>submit_replies := (\<lambda>k. SubmitError ''ERROR_ZERO_BALANCE'')\<rparr>"

text \<open>A captcha on which 2captcha fails and nobody solves it by hand.\<close>

definition failing_captcha :: captcha_env where
  "failing_captcha = \<lparr>captcha_detected = True,
     service_path = \<lparr>balance = Some 5, twocaptcha = refusing_service, service_raises = False,
       service_manual = nobody_solves\<rparr>,
     iframe_count = 1, checkbox_visible = Some True, checkbox_click = True,
     fallback_manual = nobody_solves\<rparr>"

text \<open>A captcha that 2captcha solves, that nobody solves by hand, and whose iframe is gone for the fallback.\<close>

definition service_only_captcha :: captcha_env where
  "service_only_captcha = \<lparr>captcha_detected = True,
     service_path = \<lparr>balance = Some 5, twocaptcha = solving_service, service_raises = False,
       service_manual = nobody_solves\<rparr>,
     iframe_count = 0, checkbox_visible = Some True, checkbox_click = True,
     fallback_manual = nobody_solves\<rparr>"

text \<open>A captcha on which 2captcha fails and a person solves it at once during the wait that follows.\<close>

definition rescued_captcha :: captcha_env where
  "rescued_captcha = failing_captcha\<lparr>service_path :=
     \<lparr>balance = Some 5, twocaptcha = refusing_service, service_raises = False,
      service_manual = solved_at_once\<rparr>\<rparr>"

section \<open>Worker pool coordinator (scraper\_pool.py)\<close>

text \<open>
  An entry of the attorney list: not a dict, or a dict with the values under
  \<open>'first_name'\<close> and \<open>'last_name'\<close>, \<open>None\<close> for a missing key.
\<close>

datatype attorney_entry = NotADict | Dict "string option" "string option"

datatype worker_error = ValueError string | BrowserSetupError

text \<open>
  What a worker meets: how \<open>setup_browser\<close> ends inside \<open>DallasCountyScraper(attorney)\<close>,
  and what \<open>run\<close> meets.
\<close>

record worker_env =
  construction :: setup_outcome
  workflow :: run_env

text \<open>
  The worker returns the tuple \<open>(attorney_index, results, success, error)\<close>; the second
  component of the model's result is the set of Playwright instances still running when
  the worker has returned, its \<open>finally\<close> block included. The block calls \<open>cleanup\<close> only
  when the scraper object exists.
\<close>

definition scrape_attorney_worker ::
  "config \<Rightarrow> attorney_entry \<Rightarrow> nat \<Rightarrow> worker_env
     \<Rightarrow> ((nat \<times> case_record list \<times> bool \<times> worker_error option) \<times> nat set) option" where
  "scrape_attorney_worker cfg entry attorney_index env =
     (case entry of
        NotADict \<Rightarrow>
          Some ((attorney_index, [], False, Some (ValueError ''attorney must be a dict'')), {})
      | Dict None lname \<Rightarrow>
          Some ((attorney_index, [], False, Some (ValueError ''missing required keys'')), {})
      | Dict (Some fname) None \<Rightarrow>
          Some ((attorney_index, [], False, Some (ValueError ''missing required keys'')), {})
      | Dict (Some fname) (Some lname) \<Rightarrow>
          if fname = [] \<or> lname = [] then
            Some ((attorney_index, [], False,
                   Some (ValueError ''first_name and last_name cannot be empty'')), {})
          else
            (case setup_browser (construction env) 0 {} of
               (None, started', running') \<Rightarrow>
                 Some ((attorney_index, [], False, Some BrowserSetupError), running')
             | (Some h, started', running') \<Rightarrow>
                 (case run cfg \<lparr>first_name = fname, last_name = lname\<rparr> (workflow env)
                         (new_scraper h started' running') of
                    None \<Rightarrow> None
                  | Some (success, scraper) \<Rightarrow>
                      if success
                      then Some ((attorney_index, results scraper, True, None),
                                 running (cleanup scraper))
                      else Some ((attorney_index, [], False, None), running (cleanup scraper)))))"

text \<open>
  The loop over \<open>as_completed\<close>: the results of the workers, in the order they complete,
  are appended to \<open>shared_results\<close>. A worker that never returns keeps the loop waiting.
\<close>

fun collect ::
  "((nat \<times> case_record list \<times> bool \<times> worker_error option) \<times> nat set) option list
     \<Rightarrow> case_record list option" where
  "collect [] = Some []"
| "collect (None # outcomes) = None"
| "collect (Some ((idx, found, success, error), still_running) # outcomes) =
     map_option (\<lambda>shared_results. found @ shared_results) (collect outcomes)"

text \<open>
  \<open>max_workers\<close> is \<open>DEFAULT_MAX_WORKERS\<close>, \<open>envs\<close> gives each worker what it meets and
  \<open>completed\<close> is the order in which the futures complete. A pool of no worker makes
  \<open>ThreadPoolExecutor\<close> raise, and the handler around the body returns the empty list.
\<close>

definition run_all_attorneys_concurrent ::
  "config \<Rightarrow> int \<Rightarrow> attorney_entry list \<Rightarrow> (nat \<Rightarrow> worker_env) \<Rightarrow> nat list
     \<Rightarrow> case_record list option" where
  "run_all_attorneys_concurrent cfg max_workers attorneys envs completed =
     (if attorneys = [] then Some []
      else
        let num_workers = min (int (length attorneys)) max_workers in
        if num_workers \<le> 0 then Some []
        else collect (map (\<lambda>idx. scrape_attorney_worker cfg (attorneys ! idx) idx (envs idx)) completed))"

subsection \<open>Example workers\<close>

text \<open>A first recovery attempt that gets its browser and then fails to reach the search page.\<close>

definition retry_turn :: "result_row list \<Rightarrow> step_env" where
  "retry_turn felony_rows = \<lparr>fault = False, tabs = (\<lambda>selector. tab_never),
     recovery = (\<lambda>attempt. if attempt = 0 then attempt_ok\<lparr>navigated := False\<rparr> else attempt_ok),
     rows_after = felony_rows\<rparr>"

definition retry_env :: run_env where
  "retry_env = (example_env ''03/14/2025'')\<lparr>loop_script := [retry_turn [known_row], smooth [known_row]]\<rparr>"

section \<open>Properties of the case field extractor\<close>

lemma scan_gridcells_None:
  "\<not> list_ex acceptable_cell cells \<Longrightarrow> scan_gridcells cells = None"
  by (induction cells rule: scan_gridcells.induct) (auto simp: Let_def)

lemma scan_gridcells_Some:
  "scan_gridcells cells = Some v \<Longrightarrow>
   \<exists>text row_text. GridCell text row_text \<in> set cells \<and> v = strip text
      \<and> dollar_amount v \<and> \<not> disqualified row_text"
  by (induction cells rule: scan_gridcells.induct) (auto simp: Let_def split: if_splits)

lemma scan_gridcells_filter:
  "scan_gridcells (filter (\<lambda>c. \<not> disqualified_dollar_cell c) cells) = scan_gridcells cells"
  by (induction cells rule: scan_gridcells.induct) (auto simp: Let_def)

lemma scan_amount_divs_none:
  "\<not> list_ex (\<lambda>text. dollar_amount (strip text)) divs \<Longrightarrow>
   scan_amount_divs divs = ''No bond amount set''"
  by (induction divs) (auto simp: Let_def)

lemma bond_from_settings_none:
  assumes "\<not> list_ex (\<lambda>text. dollar_amount (strip text)) (settings_divs sect)"
    and "case sect of None \<Rightarrow> True | Some s \<Rightarrow> \<not> hold_marker s \<and> \<not> expanded_marker (expansion s)"
  shows "bond_from_settings sect = ''No bond amount set''"
proof (cases sect)
  case None
  then show ?thesis by (simp add: bond_from_settings_def)
next
  case (Some s)
  with assms have divs: "\<not> list_ex (\<lambda>text. dollar_amount (strip text)) (amount_divs s)"
    and exp: "\<not> list_ex (\<lambda>text. dollar_amount (strip text)) (expanded_divs (expansion s))"
    and marks: "\<not> hold_marker s" "\<not> expanded_marker (expansion s)"
    by (auto simp: settings_divs_def list_ex_iff)
  show ?thesis
  proof (cases "expansion s")
    case ExpandRaises
    with Some marks divs show ?thesis
      by (simp add: bond_from_settings_def scan_amount_divs_none split: option.splits)
  next
    case (Expanded marker ds)
    with exp marks have "\<not> marker" "scan_amount_divs ds = ''No bond amount set''"
      by (simp_all add: scan_amount_divs_none)
    with Some Expanded marks divs show ?thesis
      by (simp add: bond_from_settings_def scan_amount_divs_none split: option.splits)
  qed
qed

text \<open>
  C7. Step 1 returns the text of a gridcell only when the row of that cell has no
  disqualifier, and the dollar cells of disqualified rows have no influence on the
  result at all (removing them gives the same bond amount). A page with no acceptable
  dollar figure and no ``Hold Without Bond'' marker gives exactly
  \<open>''No bond amount set''\<close>. When no gridcell is acceptable and the settings section
  shows the marker, before or after the expansion of the bottom-most row, the result is
  \<open>''Hold Without Bond''\<close>.
\<close>

theorem bond_amount_extraction:
  "(scan_gridcells (gridcells page) = Some v \<longrightarrow>
      extract_bond_amount page = v
      \<and> (\<exists>text row_text. GridCell text row_text \<in> set (gridcells page) \<and> v = strip text
            \<and> dollar_amount v \<and> \<not> disqualified row_text))
   \<and> extract_bond_amount (page\<lparr>gridcells := filter (\<lambda>c. \<not> disqualified_dollar_cell c) (gridcells page)\<rparr>)
       = extract_bond_amount page
   \<and> (no_acceptable_figure page \<and> no_marker page \<longrightarrow>
        extract_bond_amount page = ''No bond amount set'')
   \<and> (\<not> list_ex acceptable_cell (gridcells page) \<and> settings page = Some s \<and> hold_marker s \<longrightarrow>
        extract_bond_amount page = ''Hold Without Bond'')
   \<and> (\<not> list_ex acceptable_cell (gridcells page) \<and> settings page = Some s \<and> \<not> hold_marker s
        \<and> expand_icons s = Some icons \<and> icons \<noteq> [] \<and> contains (last icons) ''k-plus''
        \<and> expansion s = Expanded True divs \<longrightarrow>
        extract_bond_amount page = ''Hold Without Bond'')"
proof (intro conjI impI)
  assume "scan_gridcells (gridcells page) = Some v"
  then show "extract_bond_amount page = v"
    by (simp add: extract_bond_amount_def)
next
  assume "scan_gridcells (gridcells page) = Some v"
  then show "\<exists>text row_text. GridCell text row_text \<in> set (gridcells page) \<and> v = strip text
      \<and> dollar_amount v \<and> \<not> disqualified row_text"
    by (rule scan_gridcells_Some)
next
  show "extract_bond_amount (page\<lparr>gridcells := filter (\<lambda>c. \<not> disqualified_dollar_cell c) (gridcells page)\<rparr>)
       = extract_bond_amount page"
    by (simp add: extract_bond_amount_def scan_gridcells_filter split: option.splits)
next
  assume "no_acceptable_figure page \<and> no_marker page"
  then show "extract_bond_amount page = ''No bond amount set''"
    by (simp add: extract_bond_amount_def no_acceptable_figure_def no_marker_def
        scan_gridcells_None bond_from_settings_none)
next
  assume "\<not> list_ex acceptable_cell (gridcells page) \<and> settings page = Some s \<and> hold_marker s"
  then show "extract_bond_amount page = ''Hold Without Bond''"
    by (simp add: extract_bond_amount_def scan_gridcells_None bond_from_settings_def)
next
  assume "\<not> list_ex acceptable_cell (gridcells page) \<and> settings page = Some s \<and> \<not> hold_marker s
        \<and> expand_icons s = Some icons \<and> icons \<noteq> [] \<and> contains (last icons) ''k-plus''
        \<and> expansion s = Expanded True divs"
  then show "extract_bond_amount page = ''Hold Without Bond''"
    by (simp add: extract_bond_amount_def scan_gridcells_None bond_from_settings_def)
qed

lemma fee_only_page_facts:
  "no_acceptable_figure fee_only_page \<and> no_marker fee_only_page
   \<and> \<not> list_ex acceptable_cell (gridcells fee_only_page)
   \<and> disqualified_dollar_cell (GridCell '' $250.00 '' ''Court Fee $250.00'')"
  by code_simp

lemma held_page_facts:
  "\<not> list_ex acceptable_cell (gridcells (fee_only_page\<lparr>settings := Some held_settings\<rparr>))
   \<and> settings (fee_only_page\<lparr>settings := Some held_settings\<rparr>) = Some held_settings
   \<and> hold_marker held_settings"
  by code_simp

lemma cash_bond_page_facts:
  "scan_gridcells (gridcells cash_bond_page) = Some ''$500.00''
   \<and> strip (CHR 0xA0 # ''$500.00'' @ [CHR 0x85]) = ''$500.00''
   \<and> dollar_amount [CHR ''$'', CHR 0xB9]"
  by code_simp

theorem bond_amount_extraction_witness:
  "no_acceptable_figure fee_only_page \<and> no_marker fee_only_page
   \<and> extract_bond_amount fee_only_page = ''No bond amount set''
   \<and> hold_marker held_settings
   \<and> extract_bond_amount (fee_only_page\<lparr>settings := Some held_settings\<rparr>) = ''Hold Without Bond''
   \<and> scan_gridcells (gridcells cash_bond_page) = Some ''$500.00''
   \<and> extract_bond_amount cash_bond_page = ''$500.00''"
proof -
  have a: "extract_bond_amount fee_only_page = ''No bond amount set''"
    using bond_amount_extraction [of fee_only_page _ held_settings] fee_only_page_facts by simp
  have b: "extract_bond_amount (fee_only_page\<lparr>settings := Some held_settings\<rparr>) = ''Hold Without Bond''"
    using bond_amount_extraction [of "fee_only_page\<lparr>settings := Some held_settings\<rparr>" _ held_settings]
      held_page_facts by simp
  have c: "extract_bond_amount cash_bond_page = ''$500.00''"
    using bond_amount_extraction [of cash_bond_page "''$500.00''"] cash_bond_page_facts by blast
  from a b c fee_only_page_facts held_page_facts cash_bond_page_facts show ?thesis by simp
qed
lemma strip_NA: "strip ''NA'' = ''NA''"
  by (simp add: strip_def lstrip_def is_space_def)

lemma record_field_extraction_value:
  "fst (record_field_extraction field_label v errs required) = strip v"
  by (simp add: record_field_extraction_def ensure_field_extracted_def Let_def)

lemma record_field_extraction_split:
  "record_field_extraction field_label v errs required
     = (strip v, snd (record_field_extraction field_label v errs required))"
  using record_field_extraction_value [of field_label v errs required]
  by (metis prod.collapse)

lemma extract_case_details_status:
  "network_idle page \<Longrightarrow> case_status (fst (extract_case_details page)) = strip (found_case_status page)"
  unfolding extract_case_details_def Let_def
  by (simp add: split_beta record_field_extraction_value)

lemma extract_case_details_disposition:
  "network_idle page \<Longrightarrow>
   disposition (fst (extract_case_details page))
     = (if upper (strip (strip (found_case_status page))) \<in> set [''ACTIVE'', ''OPEN''] then ''NA''
        else if fst (extract_disposition_and_sentencing page) = [] then ''NA''
        else strip (fst (extract_disposition_and_sentencing page)))"
  unfolding extract_case_details_def Let_def
  by (simp add: split_beta record_field_extraction_value strip_NA)

lemma extract_case_details_sentencing:
  "network_idle page \<Longrightarrow>
   sentencing_info (fst (extract_case_details page))
     = (if upper (strip (strip (found_case_status page))) \<in> set [''ACTIVE'', ''OPEN''] then ''NA''
        else if snd (extract_disposition_and_sentencing page) = [] then ''NA''
        else strip (snd (extract_disposition_and_sentencing page)))"
  unfolding extract_case_details_def Let_def
  by (simp add: split_beta record_field_extraction_value strip_NA)

text \<open>
  C6 (as the code has it). On a page whose load state is reached, the status is compared
  after trimming and upper-casing. When it is then ACTIVE or OPEN (so in particular when
  it is literally one of the two), disposition and sentencing\_info are both
  \<open>''NA''\<close> and the record does not depend on the disposition, confinement and
  probation content of the page: nothing is extracted. For every other status each of
  the two fields is \<open>''NA''\<close> exactly when its extraction is empty, and the
  extracted text, trimmed, otherwise.
\<close>

theorem disposition_short_circuit:
  "network_idle page \<Longrightarrow>
   (let r = fst (extract_case_details page);
        d = fst (extract_disposition_and_sentencing page);
        s = snd (extract_disposition_and_sentencing page)
    in (case_status r = ''ACTIVE'' \<or> case_status r = ''OPEN'' \<longrightarrow>
          disposition r = ''NA'' \<and> sentencing_info r = ''NA'')
     \<and> (if upper (strip (case_status r)) \<in> set [''ACTIVE'', ''OPEN'']
         then disposition r = ''NA'' \<and> sentencing_info r = ''NA''
            \<and> fst (extract_case_details
                  (page\<lparr>found_disposition := d', confinement := c', probation := p'\<rparr>)) = r
         else disposition r = (if d = [] then ''NA'' else strip d)
            \<and> sentencing_info r = (if s = [] then ''NA'' else strip s)))"
proof -
  assume idle: "network_idle page"
  let ?r = "fst (extract_case_details page)"
  let ?page' = "page\<lparr>found_disposition := d', confinement := c', probation := p'\<rparr>"
  have st: "case_status ?r = strip (found_case_status page)"
    using idle by (rule extract_case_details_status)
  have lit: "upper (strip ''ACTIVE'') = ''ACTIVE''" "upper (strip ''OPEN'') = ''OPEN''"
    by code_simp+
  have same: "upper (strip (strip (found_case_status page))) \<in> set [''ACTIVE'', ''OPEN''] \<Longrightarrow>
      fst (extract_case_details ?page') = ?r"
  proof -
    assume act: "upper (strip (strip (found_case_status page))) \<in> set [''ACTIVE'', ''OPEN'']"
    have bond: "extract_bond_amount ?page' = extract_bond_amount page"
      by (simp add: extract_bond_amount_def split: option.splits)
    show ?thesis
      using idle act unfolding extract_case_details_def Let_def
      by (simp add: split_beta bond record_field_extraction_value)
  qed
  show ?thesis
    unfolding Let_def
    using extract_case_details_disposition [OF idle] extract_case_details_sentencing [OF idle]
      st lit same
    by auto
qed

lemma disposed_page_facts:
  "network_idle disposed_page
   \<and> upper (strip (case_status (fst (extract_case_details disposed_page)))) = ''DISPOSED''
   \<and> fst (extract_disposition_and_sentencing disposed_page) = ''CONVICTED''
   \<and> snd (extract_disposition_and_sentencing disposed_page) = ''Confinement: 2 Years, PRISON''
   \<and> strip ''CONVICTED'' = ''CONVICTED''
   \<and> strip ''Confinement: 2 Years, PRISON'' = ''Confinement: 2 Years, PRISON''"
  by code_simp

lemma fee_only_page_status:
  "network_idle fee_only_page
   \<and> upper (strip (case_status (fst (extract_case_details fee_only_page)))) = ''ACTIVE''"
  by code_simp

theorem disposition_short_circuit_witness:
  "network_idle disposed_page
   \<and> disposition (fst (extract_case_details disposed_page)) = ''CONVICTED''
   \<and> sentencing_info (fst (extract_case_details disposed_page)) = ''Confinement: 2 Years, PRISON''
   \<and> network_idle fee_only_page
   \<and> disposition (fst (extract_case_details fee_only_page)) = ''NA''
   \<and> sentencing_info (fst (extract_case_details fee_only_page)) = ''NA''"
  using disposition_short_circuit [of disposed_page] disposition_short_circuit [of fee_only_page]
    disposed_page_facts fee_only_page_status
  by (simp add: Let_def)

text \<open>
  C6 as stated fails on two pages: one whose status reads \<open>Active\<close> (neither of the two
  literal strings), where nothing is extracted although the page has a disposition, and
  one whose load state is never reached, where the status is empty, nothing is
  extracted and the two fields stay empty instead of \<open>''NA''\<close>.
\<close>

theorem disposition_short_circuit_counterexample:
  "case_status (fst (extract_case_details fee_only_page)) = ''Active''
   \<and> fst (extract_disposition_and_sentencing fee_only_page) = ''CONVICTED''
   \<and> disposition (fst (extract_case_details fee_only_page)) = ''NA''
   \<and> case_status (fst (extract_case_details (fee_only_page\<lparr>network_idle := False\<rparr>))) = []
   \<and> disposition (fst (extract_case_details (fee_only_page\<lparr>network_idle := False\<rparr>))) = []
   \<and> sentencing_info (fst (extract_case_details (fee_only_page\<lparr>network_idle := False\<rparr>))) = []"
  by code_simp

section \<open>Properties of the workflow\<close>

lemma try_date_formats_first_parse:
  "try_date_formats p m t fs = (case first_parse p t fs of None \<Rightarrow> True | Some y \<Rightarrow> m \<le> y)"
  by (induction fs) (auto split: option.splits)

lemma check_latest_file_date_year:
  "check_latest_file_date cfg p cells
     = (case first_row_year p cells of None \<Rightarrow> True | Some y \<Rightarrow> MINIMUM_CASE_YEAR cfg \<le> y)"
  by (simp add: check_latest_file_date_def first_row_year_def candidate_formats_def
      try_date_formats_first_parse Let_def split: option.splits)

text \<open>
  C5. Once the search is submitted, \<open>run\<close> goes on to the row loop when the first
  row's file date parses (with the first candidate format that accepts it) to a year at
  or above the configured minimum, and also when no file date is found or no candidate
  format parses it; when the parsed year is below the minimum it returns False at once
  with the scraper unchanged: no record, no row opened.
\<close>

theorem year_cutoff_branch:
  "landing_ok env \<and> fill_ok env \<and> captcha_ok env \<and> submit_ok env \<Longrightarrow>
   (case first_row_year (strptime env) (date_cells env) of
      None \<Rightarrow>
        run cfg att env s
          = map_option (Pair True) (process_felony_cases cfg att (loop_script env) (first_rows env) s)
    | Some year \<Rightarrow>
        if MINIMUM_CASE_YEAR cfg \<le> year
        then run cfg att env s
          = map_option (Pair True) (process_felony_cases cfg att (loop_script env) (first_rows env) s)
        else run cfg att env s = Some (False, s))"
  by (simp add: run_def check_latest_file_date_year split: option.splits)

lemma example_env_facts:
  "landing_ok (example_env d) \<and> fill_ok (example_env d) \<and> captcha_ok (example_env d) \<and> submit_ok (example_env d)"
  by (simp add: example_env_def)

lemma example_years:
  "first_row_year (strptime (example_env '' 11/02/2019 '')) (date_cells (example_env '' 11/02/2019 '')) = Some 2019"
  "first_row_year (strptime (example_env '' 03/14/2025 '')) (date_cells (example_env '' 03/14/2025 '')) = Some 2025"
  "first_row_year (strptime (example_env ''n/a'')) (date_cells (example_env ''n/a'')) = None"
  "MINIMUM_CASE_YEAR default_config = 2025"
  "first_row_year (strptime (example_env (CHR 0xA0 # ''11/02/2019'' @ [CHR 0x85])))
     (date_cells (example_env (CHR 0xA0 # ''11/02/2019'' @ [CHR 0x85]))) = Some 2019"
  by code_simp+

lemma example_run:
  "process_felony_cases default_config jane_doe (loop_script (example_env d)) (first_rows (example_env d)) fresh
    = process_felony_cases default_config jane_doe [smooth [known_row]] [known_row] fresh"
  by (simp add: example_env_def)

lemma example_process:
  "map case_number (results (the (process_felony_cases default_config jane_doe [smooth [known_row]] [known_row] fresh))) = [''F-2500123'']
   \<and> process_felony_cases default_config jane_doe [smooth [known_row]] [known_row] fresh \<noteq> None"
  by code_simp

theorem year_cutoff_branch_witness:
  "run default_config jane_doe (example_env '' 11/02/2019 '') fresh = Some (False, fresh)
   \<and> results fresh = [] \<and> trace fresh = []
   \<and> run default_config jane_doe (example_env '' 03/14/2025 '') fresh
       = map_option (Pair True) (process_felony_cases default_config jane_doe [smooth [known_row]] [known_row] fresh)
   \<and> run default_config jane_doe (example_env ''n/a'') fresh
       = map_option (Pair True) (process_felony_cases default_config jane_doe [smooth [known_row]] [known_row] fresh)
   \<and> process_felony_cases default_config jane_doe [smooth [known_row]] [known_row] fresh \<noteq> None
   \<and> run default_config jane_doe (example_env (CHR 0xA0 # ''11/02/2019'' @ [CHR 0x85])) fresh
       = Some (False, fresh)"
  using year_cutoff_branch [where env = "example_env '' 11/02/2019 ''" and cfg = default_config and att = jane_doe
      and s = fresh, OF example_env_facts]
    year_cutoff_branch [where env = "example_env '' 03/14/2025 ''" and cfg = default_config and att = jane_doe
      and s = fresh, OF example_env_facts]
    year_cutoff_branch [where env = "example_env ''n/a''" and cfg = default_config and att = jane_doe
      and s = fresh, OF example_env_facts]
    year_cutoff_branch [where env = "example_env (CHR 0xA0 # ''11/02/2019'' @ [CHR 0x85])"
      and cfg = default_config and att = jane_doe and s = fresh, OF example_env_facts]
    example_years example_run example_process
  by (simp add: fresh_def new_scraper_def)
subsection \<open>What recovery leaves alone\<close>

lemma cleanup_keeps:
  "results (cleanup s) = results s"
  "processed_case_numbers (cleanup s) = processed_case_numbers s"
  "trace (cleanup s) = trace s"
  by (simp_all add: cleanup_def split: option.splits)

lemma recovery_attempts_keeps:
  "results (snd (recovery_attempts attempts s)) = results s
   \<and> processed_case_numbers (snd (recovery_attempts attempts s)) = processed_case_numbers s
   \<and> trace (snd (recovery_attempts attempts s)) = trace s"
  by (induction attempts arbitrary: s)
    (auto simp: setup_browser_def Let_def split: setup_outcome.splits)

lemma recover_session_keeps:
  "results (snd (recover_session attempts s)) = results s"
  "processed_case_numbers (snd (recover_session attempts s)) = processed_case_numbers s"
  "trace (snd (recover_session attempts s)) = trace s @ [Recover]"
  by (simp_all add: recover_session_def recovery_attempts_keeps cleanup_keeps)


subsection \<open>The row loop and recovery\<close>

lemma process_case_details_keeps:
  "processed_case_numbers (process_case_details cfg att page s) = processed_case_numbers s"
  "trace (process_case_details cfg att page s) = trace s"
  by (simp_all add: process_case_details_def Let_def)

lemma process_case_details_results:
  "\<exists>new. results (process_case_details cfg att page s) = results s @ new
     \<and> set (map case_number new) \<subseteq> {case_number (fst (extract_case_details page))}
     \<and> length new \<le> 1"
  by (simp add: process_case_details_def Let_def)

lemma visit_case_processed:
  "processed_case_numbers (visit_case cfg att row s)
     = (if get_case_number_from_row row \<noteq> []
        then insert (get_case_number_from_row row) (processed_case_numbers s)
        else processed_case_numbers s)"
  by (simp add: visit_case_def Let_def process_case_details_keeps)

lemma visit_case_trace:
  "trace (visit_case cfg att row s)
     = trace s @ [Open (get_case_number_from_row row) (processed_case_numbers s),
                  Leave (get_case_number_from_row row) (processed_case_numbers (visit_case cfg att row s))]"
  by (simp add: visit_case_def Let_def process_case_details_keeps)

lemma visit_case_results:
  "\<exists>new. results (visit_case cfg att row s) = results s @ new
     \<and> set (map case_number new) \<subseteq> {case_number (fst (extract_case_details (detail row)))}
     \<and> length new \<le> 1"
  using process_case_details_results
    [of cfg att "detail row" "s\<lparr>trace := trace s @ [Open (get_case_number_from_row row) (processed_case_numbers s)]\<rparr>"]
  by (auto simp: visit_case_def Let_def)

lemma visit_case_no_duplicates:
  assumes k: "keyed row" and nd: "no_duplicates s"
    and fresh: "get_case_number_from_row row \<notin> processed_case_numbers s"
  shows "no_duplicates (visit_case cfg att row s)"
proof -
  let ?n = "get_case_number_from_row row"
  from visit_case_results [of cfg att row s] obtain new where
    new: "results (visit_case cfg att row s) = results s @ new"
      "set (map case_number new) \<subseteq> {case_number (fst (extract_case_details (detail row)))}"
      "length new \<le> 1"
    by blast
  from k have n: "?n \<noteq> []" "case_number (fst (extract_case_details (detail row))) = ?n"
    by (simp_all add: keyed_def)
  from nd fresh have notin: "?n \<notin> set (map case_number (results s))"
    by (auto simp: no_duplicates_def)
  from new(3) have "distinct (map case_number new)"
    by (cases new) auto
  moreover have "set (map case_number (results s)) \<inter> set (map case_number new) = {}"
  proof -
    have "\<And>r. r \<in> set new \<Longrightarrow> case_number r = ?n"
      using new(2) n by auto
    then have "set (map case_number new) \<subseteq> {?n}"
      by auto
    with notin show ?thesis
      by blast
  qed
  ultimately have "distinct (map case_number (results s @ new))"
    using nd by (simp add: no_duplicates_def)
  moreover have "set (map case_number (results s @ new)) \<subseteq> insert ?n (processed_case_numbers s)"
    using nd new(2) n by (auto simp: no_duplicates_def)
  ultimately show ?thesis
    using new(1) n by (simp add: no_duplicates_def visit_case_processed)
qed

lemma recover_session_no_duplicates:
  "no_duplicates s \<Longrightarrow> no_duplicates (snd (recover_session attempts s))"
  by (simp add: no_duplicates_def recover_session_keeps)

lemma scraper_of_recovery:
  "scraper_of (case recover_session attempts s of
       (True, s') \<Rightarrow> Continue felony_rows i s' | (False, s') \<Rightarrow> Return s')
     = snd (recover_session attempts s)"
  by (auto split: prod.splits bool.splits)

text \<open>The scraper after one turn, by the branch the turn takes.\<close>

lemma process_row_cases:
  "scraper_of (process_row cfg att e felony_rows i s) = s
   \<or> scraper_of (process_row cfg att e felony_rows i s) = snd (recover_session (recovery e) s)
   \<or> (\<not> (get_case_number_from_row (felony_rows ! i) \<noteq> []
           \<and> get_case_number_from_row (felony_rows ! i) \<in> processed_case_numbers s)
       \<and> (scraper_of (process_row cfg att e felony_rows i s) = visit_case cfg att (felony_rows ! i) s
          \<or> scraper_of (process_row cfg att e felony_rows i s)
               = snd (recover_session (recovery e) (visit_case cfg att (felony_rows ! i) s))))"
  by (auto simp: process_row_def Let_def scraper_of_recovery)

lemma process_row_rows:
  "process_row cfg att e felony_rows i s = Continue felony_rows' i' s' \<Longrightarrow>
   felony_rows' = felony_rows \<or> felony_rows' = rows_after e"
  by (auto simp: process_row_def Let_def split: if_splits prod.splits bool.splits)

lemma process_row_grows:
  "\<exists>new. results (scraper_of (process_row cfg att e felony_rows i s)) = results s @ new"
  using process_row_cases [of cfg att e felony_rows i s] visit_case_results [of cfg att "felony_rows ! i" s]
  by (auto simp: recover_session_keeps)

lemma process_row_no_duplicates:
  assumes "i < length felony_rows" "list_all keyed felony_rows" "no_duplicates s"
  shows "no_duplicates (scraper_of (process_row cfg att e felony_rows i s))"
proof -
  let ?row = "felony_rows ! i"
  from assms have k: "keyed ?row"
    by (simp add: list_all_length)
  then have "get_case_number_from_row ?row \<noteq> []"
    by (simp add: keyed_def)
  then have v: "\<not> (get_case_number_from_row ?row \<noteq> []
           \<and> get_case_number_from_row ?row \<in> processed_case_numbers s) \<Longrightarrow>
      no_duplicates (visit_case cfg att ?row s)"
    using k assms(3) by (auto intro: visit_case_no_duplicates)
  show ?thesis
    using process_row_cases [of cfg att e felony_rows i s] assms(3) v
    by (auto intro: recover_session_no_duplicates)
qed

lemma process_row_processed:
  "processed_case_numbers s \<subseteq> processed_case_numbers (scraper_of (process_row cfg att e felony_rows i s))"
  using process_row_cases [of cfg att e felony_rows i s]
  by (auto simp: recover_session_keeps visit_case_processed)

lemma process_row_trace:
  assumes "list_all honours (trace s)"
  shows "list_all honours (trace (scraper_of (process_row cfg att e felony_rows i s)))"
proof -
  let ?row = "felony_rows ! i"
  have v: "\<not> (get_case_number_from_row ?row \<noteq> []
           \<and> get_case_number_from_row ?row \<in> processed_case_numbers s) \<Longrightarrow>
      list_all honours (trace (visit_case cfg att ?row s))"
    using assms by (auto simp: visit_case_trace visit_case_processed)
  show ?thesis
    using process_row_cases [of cfg att e felony_rows i s] assms v
    by (auto simp: recover_session_keeps)
qed

lemma process_rows_grows:
  "process_rows cfg att steps felony_rows i s = Some s' \<Longrightarrow> \<exists>new. results s' = results s @ new"
proof (induction steps arbitrary: felony_rows i s)
  case Nil
  then show ?case by (auto split: if_splits)
next
  case (Cons e steps)
  show ?case
  proof (cases "i < length felony_rows")
    case False
    with Cons.prems show ?thesis by simp
  next
    case True
    from process_row_grows [of cfg att e felony_rows i s] obtain new where
      new: "results (scraper_of (process_row cfg att e felony_rows i s)) = results s @ new"
      by blast
    show ?thesis
    proof (cases "process_row cfg att e felony_rows i s")
      case (Continue felony_rows1 i1 s1)
      with Cons.prems True have "process_rows cfg att steps felony_rows1 i1 s1 = Some s'"
        by simp
      from Cons.IH [OF this] new Continue show ?thesis
        by auto
    next
      case (Return s1)
      with Cons.prems True new show ?thesis
        by auto
    qed
  qed
qed

lemma process_rows_no_duplicates:
  "process_rows cfg att steps felony_rows i s = Some s' \<Longrightarrow> list_all keyed felony_rows \<Longrightarrow>
   keyed_script steps \<Longrightarrow> no_duplicates s \<Longrightarrow> no_duplicates s'"
proof (induction steps arbitrary: felony_rows i s)
  case Nil
  then show ?case by (auto split: if_splits)
next
  case (Cons e steps)
  show ?case
  proof (cases "i < length felony_rows")
    case False
    with Cons.prems show ?thesis by simp
  next
    case True
    have nd: "no_duplicates (scraper_of (process_row cfg att e felony_rows i s))"
      using True Cons.prems by (intro process_row_no_duplicates) auto
    from Cons.prems have ks: "keyed_script steps" "list_all keyed (rows_after e)"
      by (simp_all add: keyed_script_def)
    show ?thesis
    proof (cases "process_row cfg att e felony_rows i s")
      case (Continue felony_rows1 i1 s1)
      with Cons.prems True have run: "process_rows cfg att steps felony_rows1 i1 s1 = Some s'"
        by simp
      from process_row_rows [OF Continue] ks Cons.prems have "list_all keyed felony_rows1"
        by auto
      from Cons.IH [OF run this ks(1)] nd Continue show ?thesis
        by simp
    next
      case (Return s1)
      with Cons.prems True nd show ?thesis
        by auto
    qed
  qed
qed

lemma process_rows_honours:
  "process_rows cfg att steps felony_rows i s = Some s' \<Longrightarrow>
   processed_case_numbers s \<subseteq> processed_case_numbers s'
   \<and> (list_all honours (trace s) \<longrightarrow> list_all honours (trace s'))"
proof (induction steps arbitrary: felony_rows i s)
  case Nil
  then show ?case by (auto split: if_splits)
next
  case (Cons e steps)
  show ?case
  proof (cases "i < length felony_rows")
    case False
    with Cons.prems show ?thesis by simp
  next
    case True
    note p = process_row_processed [of s cfg att e felony_rows i]
    note t = process_row_trace [of s cfg att e felony_rows i]
    show ?thesis
    proof (cases "process_row cfg att e felony_rows i s")
      case (Continue felony_rows1 i1 s1)
      with Cons.prems True have run: "process_rows cfg att steps felony_rows1 i1 s1 = Some s'"
        by simp
      from Cons.IH [OF run] p t Continue show ?thesis
        by auto
    next
      case (Return s1)
      with Cons.prems True p t show ?thesis
        by auto
    qed
  qed
qed

text \<open>
  C1 (as the code has it). From any point of the row loop on, with any number of
  failures and recoveries after it, the result list at the end of the loop is the result
  list at that point followed by new records: nothing processed before a failure is
  lost. When every row the portal lists is keyed (its case number can be read from the
  row and is the one the extractor reads from the detail page), and the records so far
  have distinct case numbers that are all in the ProcessedCaseSet, the same holds at the
  end: no two records have the same case number.
\<close>

theorem recovery_keeps_and_never_repeats:
  "(process_rows cfg att steps felony_rows i s = Some s' \<longrightarrow>
      (\<exists>new. results s' = results s @ new)
      \<and> (list_all keyed felony_rows \<and> keyed_script steps \<and> no_duplicates s \<longrightarrow>
           no_duplicates s' \<and> distinct (map case_number (results s'))))
   \<and> (process_felony_cases cfg att steps felony_rows s = Some s' \<longrightarrow>
      (\<exists>new. results s' = results s @ new)
      \<and> (list_all keyed felony_rows \<and> keyed_script steps \<and> no_duplicates s \<longrightarrow>
           no_duplicates s' \<and> distinct (map case_number (results s'))))"
proof -
  have loop: "(\<exists>new. results s' = results s @ new)
      \<and> (list_all keyed felony_rows \<and> keyed_script steps \<and> no_duplicates s \<longrightarrow>
           no_duplicates s' \<and> distinct (map case_number (results s')))"
    if run: "process_rows cfg att steps felony_rows i s = Some s'" for i
    using process_rows_grows [OF run] process_rows_no_duplicates [OF run]
    by (auto simp: no_duplicates_def)
  have "process_felony_cases cfg att steps felony_rows s = Some s' \<Longrightarrow>
      s' = s \<or> process_rows cfg att steps felony_rows 0 s = Some s'"
    by (auto simp: process_felony_cases_def split: if_splits)
  with loop show ?thesis
    by (auto simp: no_duplicates_def)
qed

lemma keyed_run_facts:
  "process_felony_cases default_config jane_doe (failure_script [known_row, other_row])
      [known_row, other_row] fresh \<noteq> None
   \<and> list_all keyed [known_row, other_row]
   \<and> keyed_script (failure_script [known_row, other_row])
   \<and> no_duplicates fresh
   \<and> results fresh = []"
  by code_simp

theorem recovery_keeps_and_never_repeats_witness:
  "list_all keyed [known_row, other_row]
   \<and> keyed_script (failure_script [known_row, other_row])
   \<and> no_duplicates fresh
   \<and> distinct (map case_number (results (the (process_felony_cases default_config jane_doe
        (failure_script [known_row, other_row]) [known_row, other_row] fresh))))"
proof -
  from keyed_run_facts obtain s' where
    run: "process_felony_cases default_config jane_doe (failure_script [known_row, other_row])
      [known_row, other_row] fresh = Some s'"
    by blast
  from recovery_keeps_and_never_repeats [THEN conjunct2, rule_format, OF run] keyed_run_facts run
  show ?thesis
    by simp
qed

text \<open>
  C1 as stated fails on a row whose case number cannot be read from the row: it is not
  marked, and after the recovery that follows the failure on the second row it is opened
  and recorded a second time.
\<close>

theorem recovery_duplicate_counterexample:
  "map_option (\<lambda>s. map case_number (results s))
     (process_felony_cases default_config jane_doe (failure_script [unknown_row, other_row])
        [unknown_row, other_row] fresh)
   = Some [''F-2500123'', ''F-2500456'', ''F-2500123'']"
  by code_simp

text \<open>
  C2 (as the code has it). The ProcessedCaseSet holds the case numbers read from the
  rows. When a row with a known case number is opened, that number is in the set in the
  state in which \<open>navigate_back_to_search_results\<close> is called. The set only grows, and
  every action of a run honours it: a row with a known case number is opened only when
  the number is not in the set (so never again after a recovery), and left only once the
  number is in the set.
\<close>

theorem processed_set_invariant:
  "(get_case_number_from_row row \<noteq> [] \<longrightarrow>
      get_case_number_from_row row \<in> processed_case_numbers (visit_case cfg att row s))
   \<and> (process_felony_cases cfg att steps felony_rows s = Some s' \<longrightarrow>
        processed_case_numbers s \<subseteq> processed_case_numbers s'
        \<and> (list_all honours (trace s) \<longrightarrow> list_all honours (trace s')))"
proof (intro conjI impI)
  assume "get_case_number_from_row row \<noteq> []"
  then show "get_case_number_from_row row \<in> processed_case_numbers (visit_case cfg att row s)"
    by (simp add: visit_case_processed)
next
  assume run: "process_felony_cases cfg att steps felony_rows s = Some s'"
  then show "processed_case_numbers s \<subseteq> processed_case_numbers s'"
    using process_rows_honours [of cfg att steps felony_rows 0 s s']
    by (auto simp: process_felony_cases_def split: if_splits)
next
  assume run: "process_felony_cases cfg att steps felony_rows s = Some s'"
    and t: "list_all honours (trace s)"
  then show "list_all honours (trace s')"
    using process_rows_honours [of cfg att steps felony_rows 0 s s']
    by (auto simp: process_felony_cases_def split: if_splits)
qed

lemma unknown_run_facts:
  "process_felony_cases default_config jane_doe (failure_script [unknown_row, other_row])
      [unknown_row, other_row] fresh \<noteq> None
   \<and> list_all honours (trace fresh)
   \<and> get_case_number_from_row known_row \<noteq> []"
  by code_simp

theorem processed_set_invariant_witness:
  "get_case_number_from_row known_row \<noteq> []
   \<and> get_case_number_from_row known_row
        \<in> processed_case_numbers (visit_case default_config jane_doe known_row fresh)
   \<and> list_all honours (trace fresh)
   \<and> list_all honours (trace (the (process_felony_cases default_config jane_doe
        (failure_script [unknown_row, other_row]) [unknown_row, other_row] fresh)))"
proof -
  from unknown_run_facts obtain s' where
    run: "process_felony_cases default_config jane_doe (failure_script [unknown_row, other_row])
      [unknown_row, other_row] fresh = Some s'"
    by blast
  from processed_set_invariant [of known_row default_config jane_doe fresh
      "failure_script [unknown_row, other_row]" "[unknown_row, other_row]" s']
    unknown_run_facts run
  show ?thesis
    by simp
qed

text \<open>
  C2 as stated fails on a row whose case number cannot be read from the row: the
  CaseRecord made from its detail page has the case number \<open>F-2500123\<close>, which is not in
  the ProcessedCaseSet when the workflow navigates away, and after the recovery the same
  row is opened again.
\<close>

theorem processed_set_counterexample:
  "map case_number (results (visit_case default_config jane_doe unknown_row fresh)) = [''F-2500123'']
   \<and> ''F-2500123'' \<notin> processed_case_numbers (visit_case default_config jane_doe unknown_row fresh)
   \<and> map_option trace
       (process_felony_cases default_config jane_doe (failure_script [unknown_row, other_row])
          [unknown_row, other_row] fresh)
     = Some [Open [] {}, Leave [] {},
             Open ''F-2500456'' {}, Leave ''F-2500456'' {''F-2500456''},
             Recover,
             Open [] {''F-2500456''}, Leave [] {''F-2500456''}]"
  by code_simp

subsection \<open>The wait for the results heading\<close>

lemma try_tabs_timeout:
  "\<forall>p \<in> set ps. heading p 1200 \<noteq> Found \<Longrightarrow> \<not> try_tabs ps"
  by (induction ps)
    (auto simp: Let_def wait_for_search_results_page_def default_max_wait_seconds_def
      split: option.splits bool.splits wait_outcome.splits)

lemma try_tabs_confirmed:
  "try_tabs ps = list_ex click_confirmed ps"
  by (induction ps)
    (auto simp: Let_def click_confirmed_def wait_for_search_results_page_def
      default_max_wait_seconds_def split: option.splits bool.splits wait_outcome.splits)

text \<open>
  C10 (as the code has it). \<open>wait_for_search_results_page\<close> hands Playwright a timeout
  of \<open>max_wait_seconds * 10\<close> milliseconds, 1200 for the default 120, and returns
  False when the heading is not found within it. \<open>navigate_back_to_search_results\<close>
  then goes on to the next tab selector: it returns True exactly when some selector
  confirms the way back (it matches, is visible, is clicked, and the wait after that
  click finds the heading), so it returns False when no selector's wait finds the
  heading, and only when no click is followed by a confirmed heading. For a row that
  was opened, the turn of the row loop goes on to the next row without recovery when
  the way back is confirmed; when it is not, the turn calls \<open>recover_session\<close> if
  session recovery is enabled, and returns with the partial results if it is not.
\<close>

theorem search_results_wait:
  "wait_for_search_results_page w n = (w (n * 10) = Found)
   \<and> default_max_wait_seconds * 10 = 1200
   \<and> ((\<forall>selector \<in> set search_tab_selectors. heading (tabs e selector) 1200 \<noteq> Found) \<longrightarrow>
        \<not> navigate_back_to_search_results (tabs e))
   \<and> (i < length felony_rows \<and> \<not> fault e
        \<and> \<not> (get_case_number_from_row (felony_rows ! i) \<noteq> []
              \<and> get_case_number_from_row (felony_rows ! i) \<in> processed_case_numbers s)
        \<and> click_ok (felony_rows ! i)
        \<and> \<not> navigate_back_to_search_results (tabs e) \<longrightarrow>
        (if ENABLE_SESSION_RECOVERY cfg
         then process_row cfg att e felony_rows i s
                = (case recover_session (recovery e) (visit_case cfg att (felony_rows ! i) s) of
                     (True, s') \<Rightarrow> Continue (rows_after e) 0 s'
                   | (False, s') \<Rightarrow> Return s')
              \<and> Recover \<in> set (trace (scraper_of (process_row cfg att e felony_rows i s)))
         else process_row cfg att e felony_rows i s = Return (visit_case cfg att (felony_rows ! i) s)))
   \<and> navigate_back_to_search_results (tabs e)
       = list_ex (\<lambda>selector. click_confirmed (tabs e selector)) search_tab_selectors
   \<and> (i < length felony_rows \<and> \<not> fault e
        \<and> \<not> (get_case_number_from_row (felony_rows ! i) \<noteq> []
              \<and> get_case_number_from_row (felony_rows ! i) \<in> processed_case_numbers s)
        \<and> click_ok (felony_rows ! i)
        \<and> navigate_back_to_search_results (tabs e) \<longrightarrow>
        process_row cfg att e felony_rows i s
          = Continue (rows_after e) (i + 1) (visit_case cfg att (felony_rows ! i) s)
        \<and> trace (scraper_of (process_row cfg att e felony_rows i s))
            = trace s @ [Open (get_case_number_from_row (felony_rows ! i)) (processed_case_numbers s),
                         Leave (get_case_number_from_row (felony_rows ! i))
                           (processed_case_numbers (visit_case cfg att (felony_rows ! i) s))])"
proof (intro conjI impI)
  show "wait_for_search_results_page w n = (w (n * 10) = Found)"
    by (simp add: wait_for_search_results_page_def split: wait_outcome.splits)
next
  show "default_max_wait_seconds * 10 = 1200"
    by (simp add: default_max_wait_seconds_def)
next
  assume "\<forall>selector \<in> set search_tab_selectors. heading (tabs e selector) 1200 \<noteq> Found"
  then show "\<not> navigate_back_to_search_results (tabs e)"
    unfolding navigate_back_to_search_results_def
    by (intro try_tabs_timeout) auto
next
  assume a: "i < length felony_rows \<and> \<not> fault e
        \<and> \<not> (get_case_number_from_row (felony_rows ! i) \<noteq> []
              \<and> get_case_number_from_row (felony_rows ! i) \<in> processed_case_numbers s)
        \<and> click_ok (felony_rows ! i)
        \<and> \<not> navigate_back_to_search_results (tabs e)"
  let ?v = "visit_case cfg att (felony_rows ! i) s"
  have row: "process_row cfg att e felony_rows i s
      = (if ENABLE_SESSION_RECOVERY cfg
         then (case recover_session (recovery e) ?v of
                 (True, s') \<Rightarrow> Continue (rows_after e) 0 s'
               | (False, s') \<Rightarrow> Return s')
         else Return ?v)"
    using a by (auto simp: process_row_def Let_def)
  have "scraper_of (case recover_session (recovery e) ?v of
                 (True, s') \<Rightarrow> Continue (rows_after e) 0 s'
               | (False, s') \<Rightarrow> Return s') = snd (recover_session (recovery e) ?v)"
    by (auto split: prod.splits bool.splits)
  then have rec: "ENABLE_SESSION_RECOVERY cfg \<Longrightarrow>
      Recover \<in> set (trace (scraper_of (process_row cfg att e felony_rows i s)))"
    using row by (simp add: recover_session_keeps)
  show "if ENABLE_SESSION_RECOVERY cfg
         then process_row cfg att e felony_rows i s
                = (case recover_session (recovery e) (visit_case cfg att (felony_rows ! i) s) of
                     (True, s') \<Rightarrow> Continue (rows_after e) 0 s'
                   | (False, s') \<Rightarrow> Return s')
              \<and> Recover \<in> set (trace (scraper_of (process_row cfg att e felony_rows i s)))
         else process_row cfg att e felony_rows i s = Return (visit_case cfg att (felony_rows ! i) s)"
    using row rec by simp
next
  show "navigate_back_to_search_results (tabs e)
       = list_ex (\<lambda>selector. click_confirmed (tabs e selector)) search_tab_selectors"
    by (simp add: navigate_back_to_search_results_def try_tabs_confirmed list_ex_iff)
next
  assume a: "i < length felony_rows \<and> \<not> fault e
        \<and> \<not> (get_case_number_from_row (felony_rows ! i) \<noteq> []
              \<and> get_case_number_from_row (felony_rows ! i) \<in> processed_case_numbers s)
        \<and> click_ok (felony_rows ! i)
        \<and> navigate_back_to_search_results (tabs e)"
  then show "process_row cfg att e felony_rows i s
          = Continue (rows_after e) (i + 1) (visit_case cfg att (felony_rows ! i) s)"
    by (auto simp: process_row_def Let_def)
  then show "trace (scraper_of (process_row cfg att e felony_rows i s))
            = trace s @ [Open (get_case_number_from_row (felony_rows ! i)) (processed_case_numbers s),
                         Leave (get_case_number_from_row (felony_rows ! i))
                           (processed_case_numbers (visit_case cfg att (felony_rows ! i) s))]"
    by (simp add: visit_case_trace)
qed

lemma stuck_facts:
  "(\<forall>selector \<in> set search_tab_selectors. heading (tabs (stuck [known_row]) selector) 1200 \<noteq> Found)
   \<and> 0 < length [known_row] \<and> \<not> fault (stuck [known_row])
   \<and> \<not> (get_case_number_from_row ([known_row] ! 0) \<noteq> []
          \<and> get_case_number_from_row ([known_row] ! 0) \<in> processed_case_numbers fresh)
   \<and> click_ok ([known_row] ! 0)
   \<and> ENABLE_SESSION_RECOVERY default_config"
  by code_simp

lemma late_facts:
  "list_ex (\<lambda>selector. click_confirmed (tabs (late [known_row]) selector)) search_tab_selectors
   \<and> 0 < length [known_row] \<and> \<not> fault (late [known_row])
   \<and> \<not> (get_case_number_from_row ([known_row] ! 0) \<noteq> []
          \<and> get_case_number_from_row ([known_row] ! 0) \<in> processed_case_numbers fresh)
   \<and> click_ok ([known_row] ! 0)
   \<and> rows_after (late [known_row]) = [known_row] \<and> [known_row] ! 0 = known_row
   \<and> \<not> list_ex (\<lambda>selector. click_confirmed (tabs (stuck [known_row]) selector)) search_tab_selectors"
  by code_simp

theorem search_results_wait_witness:
  "list_all (\<lambda>selector. heading (tabs (stuck [known_row]) selector) 1200 \<noteq> Found) search_tab_selectors
   \<and> \<not> navigate_back_to_search_results (tabs (stuck [known_row]))
   \<and> Recover \<in> set (trace (scraper_of (process_row default_config jane_doe (stuck [known_row]) [known_row] 0 fresh)))
   \<and> list_ex (\<lambda>selector. click_confirmed (tabs (late [known_row]) selector)) search_tab_selectors
   \<and> navigate_back_to_search_results (tabs (late [known_row]))
   \<and> process_row default_config jane_doe (late [known_row]) [known_row] 0 fresh
       = Continue [known_row] 1 (visit_case default_config jane_doe known_row fresh)"
proof -
  note t = search_results_wait [of "\<lambda>timeout. Found" 120 "stuck [known_row]" 0 "[known_row]" fresh
      default_config jane_doe]
  note u = search_results_wait [of "\<lambda>timeout. Found" 120 "late [known_row]" 0 "[known_row]" fresh
      default_config jane_doe]
  have nav: "\<not> navigate_back_to_search_results (tabs (stuck [known_row]))"
    using t stuck_facts by blast
  have rec: "Recover \<in> set (trace (scraper_of
      (process_row default_config jane_doe (stuck [known_row]) [known_row] 0 fresh)))"
    using t stuck_facts nav by (meson)
  have way: "navigate_back_to_search_results (tabs (late [known_row]))"
    using u late_facts by blast
  have "process_row default_config jane_doe (late [known_row]) [known_row] 0 fresh
       = Continue (rows_after (late [known_row])) (0 + 1)
           (visit_case default_config jane_doe ([known_row] ! 0) fresh)"
    using u late_facts way by meson
  then have go: "process_row default_config jane_doe (late [known_row]) [known_row] 0 fresh
       = Continue [known_row] 1 (visit_case default_config jane_doe known_row fresh)"
    using late_facts by simp
  from nav rec way go stuck_facts late_facts show ?thesis by (simp add: list_all_iff)
qed

text \<open>
  C10 as stated fails when the heading shows between two waits: the wait after the
  click on the first selector returns False, the wait after the click on the second
  finds the heading, the way back succeeds and no recovery is started.
\<close>

theorem search_results_wait_counterexample:
  "\<not> wait_for_search_results_page (heading (tabs (late [known_row]) ''a#tcControllerLink_1'')) default_max_wait_seconds
   \<and> navigate_back_to_search_results (tabs (late [known_row]))
   \<and> process_row default_config jane_doe (late [known_row]) [known_row] 0 fresh
       = Continue [known_row] 1 (visit_case default_config jane_doe known_row fresh)
   \<and> Recover \<notin> set (trace (visit_case default_config jane_doe known_row fresh))"
  by code_simp

section \<open>Properties of the captcha resolver\<close>

lemma poll_bounded:
  "\<exists>r. poll env (Some seconds) k elapsed = Some r"
proof (induction "seconds * 1000 + 1 - elapsed" arbitrary: k elapsed rule: less_induct)
  case less
  show ?case
  proof (cases "checked env k \<or> seconds * 1000 < elapsed + look_ms env k")
    case True
    then show ?thesis
      by (subst poll.simps) auto
  next
    case False
    then have "seconds * 1000 + 1 - (elapsed + look_ms env k + 2000) < seconds * 1000 + 1 - elapsed"
      by arith
    from less [OF this] obtain r where
      "poll env (Some seconds) (Suc k) (elapsed + look_ms env k + 2000) = Some r"
      by blast
    with False show ?thesis
      by (subst poll.simps) auto
  qed
qed



lemma poll_unchecked:
  assumes run: "poll env timeout k elapsed = Some r"
  shows "(\<forall>j. \<not> checked env j) \<longrightarrow> r = False"
proof (rule poll.raw_induct
    [where P = "\<lambda>env timeout k elapsed r. (\<forall>j. \<not> checked env j) \<longrightarrow> r = False", OF _ run])
  fix p :: "manual_env \<Rightarrow> nat option \<Rightarrow> nat \<Rightarrow> nat \<Rightarrow> bool option"
  fix env timeout k elapsed r
  assume IH: "\<And>env timeout k elapsed r. p env timeout k elapsed = Some r \<Longrightarrow>
      (\<forall>j. \<not> checked env j) \<longrightarrow> r = False"
  assume step: "(if checked env k then Some True
      else if (case timeout of None \<Rightarrow> False
               | Some seconds \<Rightarrow> seconds * 1000 < elapsed + look_ms env k) then Some False
      else p env timeout (Suc k) (elapsed + look_ms env k + 2000)) = Some r"
  show "(\<forall>j. \<not> checked env j) \<longrightarrow> r = False"
  proof
    assume never: "\<forall>j. \<not> checked env j"
    show "r = False"
    proof (cases "case timeout of None \<Rightarrow> False
               | Some seconds \<Rightarrow> seconds * 1000 < elapsed + look_ms env k")
      case True
      with step never show ?thesis by simp
    next
      case False
      with step never have "p env timeout (Suc k) (elapsed + look_ms env k + 2000) = Some r"
        by simp
      from IH [OF this] never show ?thesis by blast
    qed
  qed
qed

lemma solve_captcha_manually_timeout:
  "\<forall>j. \<not> checked env j \<Longrightarrow> solve_captcha_manually env (Some seconds) = Some False"
  using poll_bounded [of env seconds 0 0] poll_unchecked [of env "Some seconds" 0 0]
  by (auto simp: solve_captcha_manually_def)


lemma solve_captcha_manually_bounded:
  "\<exists>r. solve_captcha_manually env (Some seconds) = Some r"
  by (simp add: solve_captcha_manually_def poll_bounded)


lemma with_flag_Some: "with_flag loc returned = Some (r, loc') \<longleftrightarrow> returned = Some r \<and> loc' = loc"
  by (auto simp: with_flag_def)

lemma solve_captcha_with_service_returns:
  "\<exists>r. solve_captcha_with_service env api_key service loc = Some r"
proof -
  obtain b where "solve_captcha_manually (service_manual env) (Some 300) = Some b"
    using solve_captcha_manually_bounded by blast
  then show ?thesis
    by (auto simp: solve_captcha_with_service_def split_beta with_flag_def)
qed








lemma nobody_solves_timeout: "solve_captcha_manually nobody_solves (Some seconds) = Some False"
  by (rule solve_captcha_manually_timeout) (simp add: nobody_solves_def)

lemma lower_2captcha: "lower ''2captcha'' = ''2captcha''"
  by code_simp

lemma example_api_key_nonempty: "example_api_key \<noteq> []"
  by (simp add: example_api_key_def)

lemma example_services:
  "\<not> solve_recaptcha_v2_with_2captcha refusing_service example_api_key"
  "solve_recaptcha_v2_with_2captcha solving_service example_api_key"
  by code_simp+



lemma service_sets_flag:
  assumes "solve_captcha_with_service env api_key ''2captcha'' loc = Some (r, loc')"
    and "api_key \<noteq> []" and "\<not> fst (get_manual_captcha_flag loc)"
    and "service_raises env \<or> (\<exists>b. balance env = Some b \<and> b < 3 / 1000) \<or> \<not> solve_recaptcha_v2_with_2captcha (twocaptcha env) api_key"
  shows "loc' = Some True"
  using assms
  by (auto simp: solve_captcha_with_service_def split_beta with_flag_Some lower_2captcha
      set_manual_captcha_flag_def split: if_splits option.splits)

lemma service_keeps_flag:
  "solve_captcha_with_service env api_key service (Some True) = Some (r, loc') \<Longrightarrow> loc' = Some True"
  by (auto simp: solve_captcha_with_service_def get_manual_captcha_flag_def with_flag_Some)

lemma manual_fallback_keeps_flag:
  "manual_fallback env loc = Some (r, loc') \<Longrightarrow> loc' = loc"
  by (auto simp: manual_fallback_def with_flag_Some split: if_splits)

lemma resolve_keeps_flag:
  assumes "resolve_captcha env api_key use_service (Some True) = Some (r, loc')"
  shows "loc' = Some True"
proof (cases "captcha_detected env \<and> use_service \<and> api_key \<noteq> None \<and> api_key \<noteq> Some []")
  case False
  with assms show ?thesis
    by (auto simp: resolve_captcha_def dest: manual_fallback_keeps_flag split: if_splits)
next
  case True
  obtain r1 loc1 where
    s: "solve_captcha_with_service (service_path env) (the api_key) ''2captcha'' (Some True) = Some (r1, loc1)"
    using solve_captcha_with_service_returns by (metis prod.collapse)
  then have "loc1 = Some True"
    by (rule service_keeps_flag)
  with assms True s show ?thesis
    by (cases r1) (auto simp: resolve_captcha_def dest: manual_fallback_keeps_flag)
qed

lemma run_captchas_keeps_flag:
  "run_captchas api_key use_service envs (Some True) = Some loc' \<Longrightarrow> loc' = Some True"
proof (induction envs)
  case Nil
  then show ?case by simp
next
  case (Cons env envs)
  then show ?case
    by (auto split: option.splits dest!: resolve_keeps_flag)
qed

lemma run_tasks_flags:
  "run_tasks api_key use_service tasks locals = Some locals' \<Longrightarrow>
   (locals thread = Some True \<longrightarrow> locals' thread = Some True)
   \<and> (thread \<notin> fst ` set tasks \<longrightarrow> locals' thread = locals thread)"
proof (induction tasks arbitrary: locals)
  case Nil
  then show ?case by simp
next
  case (Cons task tasks)
  obtain t envs where task: "task = (t, envs)"
    by (cases task)
  from Cons.prems task obtain loc1 where
    one: "run_captchas api_key use_service envs (locals t) = Some loc1"
    and rest: "run_tasks api_key use_service tasks (locals(t := loc1)) = Some locals'"
    by (auto split: option.splits)
  have keep: "locals t = Some True \<Longrightarrow> loc1 = Some True"
    using one by (auto dest: run_captchas_keeps_flag)
  note IH = Cons.IH [OF rest]
  show ?case
  proof (cases "thread = t")
    case True
    with IH keep task show ?thesis
      by simp
  next
    case False
    with IH task show ?thesis
      by simp
  qed
qed

text \<open>
  C3 (as the code has it). The flag belongs to a thread of the pool. It reads False on a
  thread that has never set it. A failed automated attempt (exception, balance below
  0.003, or no solution) sets it, and once it is True on a thread it stays True through
  every later captcha call and every later task on that thread. A task never changes the
  flag of a thread it does not run on.
\<close>

theorem manual_flag_per_thread:
  "fst (get_manual_captcha_flag None) = False
   \<and> (solve_captcha_with_service senv key ''2captcha'' loc = Some (r, loc')
        \<and> key \<noteq> [] \<and> \<not> fst (get_manual_captcha_flag loc)
        \<and> (service_raises senv \<or> (\<exists>b. balance senv = Some b \<and> b < 3 / 1000) \<or> \<not> solve_recaptcha_v2_with_2captcha (twocaptcha senv) key)
        \<longrightarrow> loc' = Some True)
   \<and> (resolve_captcha env api_key use_service (Some True) = Some (r, loc') \<longrightarrow> loc' = Some True)
   \<and> (run_captchas api_key use_service envs (Some True) = Some loc' \<longrightarrow> loc' = Some True)
   \<and> (run_tasks api_key use_service tasks locals = Some locals' \<longrightarrow>
        (locals thread = Some True \<longrightarrow> locals' thread = Some True)
        \<and> (thread \<notin> fst ` set tasks \<longrightarrow> locals' thread = locals thread))"
  using service_sets_flag [of senv key loc r loc'] resolve_keeps_flag [of env api_key use_service r loc']
    run_captchas_keeps_flag [of api_key use_service envs loc']
    run_tasks_flags [of api_key use_service tasks locals locals' thread]
  by (auto simp: get_manual_captcha_flag_def)

lemma solved_at_once_returns: "solve_captcha_manually solved_at_once timeout = Some True"
  unfolding solve_captcha_manually_def
  by (subst poll.simps) (simp add: solved_at_once_def)

lemma rescued_run:
  "resolve_captcha rescued_captcha (Some example_api_key) True None = Some (True, Some True)"
  by (simp add: resolve_captcha_def solve_captcha_with_service_def get_manual_captcha_flag_def
      set_manual_captcha_flag_def rescued_captcha_def failing_captcha_def example_api_key_nonempty
      example_services lower_2captcha solved_at_once_returns with_flag_def)

lemma service_only_runs:
  "resolve_captcha service_only_captcha (Some example_api_key) True None = Some (True, Some False)"
  "resolve_captcha service_only_captcha (Some example_api_key) True (Some True) = Some (False, Some True)"
  by (simp_all add: resolve_captcha_def solve_captcha_with_service_def get_manual_captcha_flag_def
      set_manual_captcha_flag_def service_only_captcha_def example_api_key_nonempty
      example_services manual_fallback_def lower_2captcha nobody_solves_timeout with_flag_def)

theorem manual_flag_per_thread_witness:
  "resolve_captcha rescued_captcha (Some example_api_key) True None = Some (True, Some True)
   \<and> run_tasks (Some example_api_key) True
        [(0, [rescued_captcha]), (0, [service_only_captcha])] (\<lambda>thread. None)
      = Some ((\<lambda>thread. None)(0 := Some True))
   \<and> ((\<lambda>thread. None)(0 := Some True)) (1 :: nat) = (None :: bool option)"
proof -
  have run: "run_tasks (Some example_api_key) True
        [(0, [rescued_captcha]), (0, [service_only_captcha])] (\<lambda>thread. None)
      = Some ((\<lambda>thread. None)(0 := Some True))"
    using rescued_run service_only_runs by simp
  from manual_flag_per_thread [where api_key = "Some example_api_key" and use_service = True
      and tasks = "[(0, [rescued_captcha]), (0, [service_only_captcha])]"
      and locals = "\<lambda>thread. None" and locals' = "(\<lambda>thread. None)(0 := Some True)"
      and thread = 1] run rescued_run
  show ?thesis
    by simp
qed

text \<open>
  C3 as stated fails when a thread runs two tasks, as the only thread of a pool of one
  worker does for two attorneys. After 2captcha failed for the first attorney, the second
  attorney's task starts with the flag True, and a captcha that 2captcha would have
  solved is left to a manual wait that runs out.
\<close>

theorem shared_thread_flag_counterexample:
  "flag_at_start (Some example_api_key) True [(0, [rescued_captcha])] 0 = Some True
   \<and> resolve_captcha service_only_captcha (Some example_api_key) True None = Some (True, Some False)
   \<and> resolve_captcha service_only_captcha (Some example_api_key) True (Some True)
       = Some (False, Some True)"
  using rescued_run service_only_runs
  by (simp add: flag_at_start_def get_manual_captcha_flag_def)

section \<open>Properties of the worker pool coordinator\<close>

text \<open>
  An entry without a non-empty first and last name is reported as that worker's error
  and starts no browser, whatever the other entries are; and the list the coordinator
  returns is the results of the workers, each worker's as it returned them, in the order
  of completion.
\<close>

lemma invalid_attorney_reported:
  "fname = None \<or> lname = None \<or> fname = Some [] \<or> lname = Some [] \<Longrightarrow>
   scrape_attorney_worker cfg NotADict idx env
     = Some ((idx, [], False, Some (ValueError ''attorney must be a dict'')), {})
   \<and> (\<exists>reason. scrape_attorney_worker cfg (Dict fname lname) idx env
         = Some ((idx, [], False, Some (ValueError reason)), {}))"
  by (auto simp: scrape_attorney_worker_def split: option.splits)

lemma collect_concat:
  "collect outcomes = Some shared_results \<Longrightarrow>
   shared_results = concat (map (\<lambda>outcome. fst (snd (fst (the outcome)))) outcomes)"
  by (induction outcomes arbitrary: shared_results rule: collect.induct) auto

lemma run_all_aggregates:
  "run_all_attorneys_concurrent cfg max_workers attorneys envs completed = Some shared_results \<Longrightarrow>
   attorneys \<noteq> [] \<Longrightarrow> 0 < max_workers \<Longrightarrow>
   shared_results = concat (map (\<lambda>idx. fst (snd (fst (the
       (scrape_attorney_worker cfg (attorneys ! idx) idx (envs idx)))))) completed)"
proof -
  assume run: "run_all_attorneys_concurrent cfg max_workers attorneys envs completed = Some shared_results"
    and ne: "attorneys \<noteq> []" and pos: "0 < max_workers"
  from ne have "0 < length attorneys"
    by simp
  then have "0 < int (length attorneys)"
    by linarith
  with pos have "\<not> min (int (length attorneys)) max_workers \<le> 0"
    by linarith
  with run ne have "collect (map (\<lambda>idx. scrape_attorney_worker cfg (attorneys ! idx) idx (envs idx)) completed)
      = Some shared_results"
    by (simp add: run_all_attorneys_concurrent_def Let_def)
  from collect_concat [OF this] show ?thesis
    by (simp add: comp_def)
qed

text \<open>
  C8. The claim holds for the validation of the entries and for the aggregation (the two
  lemmas above), but not for the release of the browser sessions. In the first run below
  \<open>setup_browser\<close> raises after it has started Playwright: the constructor raises, the
  worker has no scraper object to clean up, and instance 0 is still running when the
  worker has returned. In the second run the way back from the only case fails and the
  first recovery attempt gets a browser and then fails to reach the search page: the
  second attempt overwrites the handles of the first, the worker returns its record with
  success, and instance 1 is still running after the \<open>cleanup\<close> of the \<open>finally\<close>
  block.
\<close>

theorem browser_left_running:
  "map_option snd (scrape_attorney_worker default_config (Dict (Some ''JANE'') (Some ''DOE'')) 0
       \<lparr>construction = RaisesAfterStart, workflow = example_env ''03/14/2025''\<rparr>)
     = Some {0}
   \<and> map_option snd (scrape_attorney_worker default_config (Dict (Some ''JANE'') (Some ''DOE'')) 0
       \<lparr>construction = SetupOk, workflow = retry_env\<rparr>)
     = Some {1}
   \<and> map_option (\<lambda>outcome. map case_number (fst (snd (fst outcome))))
       (scrape_attorney_worker default_config (Dict (Some ''JANE'') (Some ''DOE'')) 0
          \<lparr>construction = SetupOk, workflow = retry_env\<rparr>)
     = Some [''F-2500123'']"
  by code_simp

section \<open>Properties of the result exporter\<close>

lemma exported_frame:
  "select_columns (filter (\<lambda>col. col \<in> set (columns (rename column_titles (DataFrame records)))) column_order)
     (rename column_titles (DataFrame records))
   = \<lparr>columns = column_order, rows = map (map snd \<circ> exported_object) records\<rparr>"
  by (simp add: select_columns_def rename_def DataFrame_def column_titles_def column_order_def
      field_names_def field_values_def cell_def exported_object_def)

lemma export_results_json:
  "records \<noteq> [] \<Longrightarrow>
   export_results ''json'' records
     = Some (Json, \<lparr>columns = column_order, rows = map (map snd \<circ> exported_object) records\<rparr>)"
  unfolding export_results_def Let_def exported_frame
  by (simp add: lower_def lower_char_def upper_letters_def lower_letters_def)

text \<open>
  C9 (as the code has it). Exporting a non-empty list of N CaseRecords with the JSON
  format writes exactly N objects, in the order of the list, and each object holds the
  ten exported columns with the values of the original record. The fields
  \<open>attorney_first_name\<close> and \<open>attorney_last_name\<close> are not written, and an empty list
  writes no file.
\<close>

theorem export_json_keeps_ten_columns:
  "export_results fmt [] = None \<and>
   (records \<noteq> [] \<longrightarrow>
     (\<exists>df. export_results ''json'' records = Some (Json, df)
        \<and> length (export_json df) = length records
        \<and> export_json df = map exported_object records))"
proof (intro conjI impI)
  show "export_results fmt [] = None"
    by (simp add: export_results_def)
next
  assume ne: "records \<noteq> []"
  have "export_json \<lparr>columns = column_order, rows = map (map snd \<circ> exported_object) records\<rparr>
          = map exported_object records"
    by (simp add: export_json_def column_order_def exported_object_def)
  with export_results_json [OF ne]
  show "\<exists>df. export_results ''json'' records = Some (Json, df)
        \<and> length (export_json df) = length records
        \<and> export_json df = map exported_object records"
    by simp
qed

theorem export_json_keeps_ten_columns_witness:
  "[jane_doe_record] \<noteq> [] \<and>
   (\<exists>df. export_results ''json'' [jane_doe_record] = Some (Json, df)
      \<and> length (export_json df) = length [jane_doe_record]
      \<and> export_json df = map exported_object [jane_doe_record])"
  using export_json_keeps_ten_columns [of "''json''" "[jane_doe_record]"] by simp

text \<open>
  C9 as stated fails for every format: the frame handed to the writer is the same for
  two different CaseRecords (they differ in the two attorney fields that are dropped),
  so no reader of the file can give both back.
\<close>

theorem export_round_trip_counterexample:
  "jane_doe_record \<noteq> jane_doe_record\<lparr>attorney_first_name := ''MARY'', attorney_last_name := ''ANN DOE''\<rparr>
   \<and> export_results ''json'' [jane_doe_record]
       = export_results ''json'' [jane_doe_record\<lparr>attorney_first_name := ''MARY'', attorney_last_name := ''ANN DOE''\<rparr>]
   \<and> export_results ''csv'' [jane_doe_record]
       = export_results ''csv'' [jane_doe_record\<lparr>attorney_first_name := ''MARY'', attorney_last_name := ''ANN DOE''\<rparr>]
   \<and> export_results ''excel'' [jane_doe_record]
       = export_results ''excel'' [jane_doe_record\<lparr>attorney_first_name := ''MARY'', attorney_last_name := ''ANN DOE''\<rparr>]"
  unfolding export_results_def Let_def exported_frame
  by (simp add: jane_doe_record_def exported_object_def)


end
